theory Spec2Isabelle
  imports Complex_Main
begin

section \<open>Python values, exceptions and the process log\<close>

text \<open>
  The exception classes the three source files raise or let through. \<open>exn\<close> holds the
  classes below Python's \<open>Exception\<close>; each carries the message \<open>str(e)\<close> gives.
  \<open>LibraryError\<close> stands for any \<open>Exception\<close> subclass raised inside web3, requests,
  eth_account or eth_defi (a failed RPC or HTTP call, an invalid address, a timeout).
  \<open>base_exn\<close> is Python's \<open>BaseException\<close>: an \<open>Exception\<close>, or one of the classes that
  \<open>except Exception\<close> does not catch. \<open>sys.exit(n)\<close> raises \<open>SystemExit\<close>.
\<close>

datatype exn =
    SonicConnectionError string
  | ValueError string
  | KeyError string
  | AttributeError string
  | AssertionError string
  | NameError string
  | LibraryError string

datatype base_exn = Exception exn | SystemExit int | KeyboardInterrupt

fun str_exn :: "exn \<Rightarrow> string" where
  "str_exn (SonicConnectionError m) = m"
| "str_exn (ValueError m) = m"
| "str_exn (KeyError k) = k"
| "str_exn (AttributeError m) = m"
| "str_exn (AssertionError m) = m"
| "str_exn (NameError m) = m"
| "str_exn (LibraryError m) = m"

text \<open>
  The values that cross the action boundary: keyword arguments, positional parameters and
  results. A Python \<open>float\<close> is kept as the rational it denotes.
\<close>

datatype pyval =
    PNone
  | PBool bool
  | PInt int
  | PFloat rat
  | PStr string
  | PList "pyval list"
  | PDict "(string \<times> pyval) list"

type_synonym kwargs = "(string \<times> pyval) list"

text \<open>\<open>kwargs.get(key, default)\<close>; \<open>kwargs.get(key)\<close> is \<open>kwargs_get kwargs key PNone\<close>.\<close>

definition kwargs_get :: "kwargs \<Rightarrow> string \<Rightarrow> pyval \<Rightarrow> pyval" where
  "kwargs_get kwargs key dflt =
     (case map_of kwargs key of None \<Rightarrow> dflt | Some v \<Rightarrow> v)"

text \<open>
  A line of the log. An f-string is kept as its literal text together with the object it
  formats, so no rendering of numbers or exceptions is needed; the emoji that open the
  source's messages are left out of the literal text.
\<close>

datatype log_line =
    LogDebug string
  | LogInfo string
  | LogInfoVal string pyval
  | LogWarning string exn
  | LogError string exn

section \<open>Python numbers, strings and JSON\<close>

text \<open>
  A Python \<open>float\<close> is modelled by the rational it denotes. Each world below carries
  \<open>float_round\<close>, which maps the exact result of one arithmetic operation (or of a
  conversion to \<open>float\<close>) to the float Python returns. No theorem assumes anything about
  it, so each holds for IEEE-754 rounding as for any other; the concrete worlds of the
  witnesses use the identity, with numbers a double holds exactly. Infinities, NaN and
  \<open>OverflowError\<close> are not modelled. \<open>py_int\<close> is \<open>int(x)\<close>: truncation towards zero.
\<close>

definition py_int :: "rat \<Rightarrow> int" where
  "py_int x = (if 0 \<le> x then \<lfloor>x\<rfloor> else \<lceil>x\<rceil>)"

text \<open>\<open>str.lower()\<close>, on ASCII (addresses are ASCII).\<close>

definition lower_char :: "char \<Rightarrow> char" where
  "lower_char c =
     (case map_of (zip ''ABCDEFGHIJKLMNOPQRSTUVWXYZ'' ''abcdefghijklmnopqrstuvwxyz'') c of
        Some d \<Rightarrow> d
      | None \<Rightarrow> c)"

definition lower :: "string \<Rightarrow> string" where
  "lower s = map lower_char s"

text \<open>
  A parsed JSON body. Numbers are integers (the aggregator's \<open>code\<close> is one). A dict built
  by \<open>json.loads\<close> keeps the last of two equal keys, hence the \<open>rev\<close>.
\<close>

datatype json =
    JNull
  | JBool bool
  | JNum int
  | JStr string
  | JArr "json list"
  | JObj "(string \<times> json) list"

definition dict_get :: "(string \<times> json) list \<Rightarrow> string \<Rightarrow> json option" where
  "dict_get d key = map_of (rev d) key"

text \<open>\<open>not v\<close> is \<open>\<not> truthy v\<close>; \<open>ne_zero v\<close> is \<open>v != 0\<close>, \<open>None\<close> standing for a missing key
  (\<open>d.get(key)\<close>). In Python \<open>False == 0\<close>.\<close>

fun truthy :: "json \<Rightarrow> bool" where
  "truthy JNull = False"
| "truthy (JBool b) = b"
| "truthy (JNum n) = (n \<noteq> 0)"
| "truthy (JStr s) = (s \<noteq> [])"
| "truthy (JArr xs) = (xs \<noteq> [])"
| "truthy (JObj d) = (d \<noteq> [])"

fun ne_zero :: "json option \<Rightarrow> bool" where
  "ne_zero (Some (JNum n)) = (n \<noteq> 0)"
| "ne_zero (Some (JBool b)) = b"
| "ne_zero _ = True"

section \<open>Transactions, the chain and the trace of requests\<close>

type_synonym address = string

text \<open>
  A transaction as the dict handed to the signer. Its call data is either an ERC-20
  \<open>approve(spender, amount)\<close> or bytes obtained elsewhere (the aggregator's encoded route,
  a call bound by a library).
\<close>

datatype call_data = ApproveCall address int | EncodedData string

record tx =
  tx_from :: address
  tx_to :: address
  tx_data :: call_data
  tx_value :: int
  tx_nonce :: "nat option"
  tx_gasPrice :: int
  tx_chainId :: nat
  tx_gas :: "nat option"

record route_query =
  tokenIn :: string
  tokenOut :: string
  amountIn :: int
  gasInclude :: string

record build_payload =
  routeSummary :: json
  sender :: address
  recipient :: address
  slippageTolerance :: int
  deadline :: int
  source :: string

text \<open>
  The requests the properties below speak about: the two aggregator requests, the
  allowance read (token, owner, spender) that opens every approval check, gas estimation,
  and every submission of a transaction. Other reads (connection check, balances,
  decimals, nonce, gas price, chain id) are answered by the world and are no event.
\<close>

datatype event =
    GetRoutes route_query
  | PostRouteBuild build_payload
  | CallAllowance address address address
  | EstimateGas tx
  | SendRawTransaction tx
  | SendTransaction tx

text \<open>A transaction handed to the node for inclusion, signed here or by the middleware.\<close>

fun is_submission :: "event \<Rightarrow> bool" where
  "is_submission (SendRawTransaction t) = True"
| "is_submission (SendTransaction t) = True"
| "is_submission _ = False"

text \<open>
  The state a call runs in and changes: what the chain holds that a call both reads and
  writes (allowances by token, owner and spender; the transaction count of each account),
  and the log.
\<close>

record chain =
  allowances :: "address \<times> address \<times> address \<Rightarrow> int"
  nonces :: "address \<Rightarrow> nat"
  logs :: "log_line list"

text \<open>
  The token contract and the network are collaborators outside the repository. The token
  is taken to be a standard ERC-20: once a transaction is mined it counts for its sender's
  nonce, and a mined \<open>approve(spender, amount)\<close> whose receipt has status 1 sets the
  allowance of (token, sender, spender) to \<open>amount\<close>; a reverted one changes no allowance.
  What a mined router call does to balances and allowances is not modelled: nothing reads
  the chain after it. No other actor touches the account during a call.
\<close>

definition mined :: "tx \<Rightarrow> int option \<Rightarrow> chain \<Rightarrow> chain" where
  "mined t status s =
     s\<lparr>nonces := (nonces s)(tx_from t := Suc (nonces s (tx_from t))),
       allowances :=
         (case tx_data t of
            ApproveCall spender amount \<Rightarrow>
              if status = Some 1
              then (allowances s)((tx_to t, tx_from t, spender) := amount)
              else allowances s
          | EncodedData _ \<Rightarrow> allowances s)\<rparr>"

subsection \<open>Calls that change the state, make requests, and may raise\<close>

text \<open>
  A call takes the state and gives its outcome (the exception raised, \<open>Inl\<close>, or the value
  returned), the state it leaves and the events it caused, in order. \<open>bind m f\<close> is
  \<open>x = m(); f(x)\<close>: an exception in \<open>m\<close> ends the sequence.
\<close>

type_synonym ('e, 'a) io = "chain \<Rightarrow> ('e + 'a) \<times> chain \<times> event list"

definition return :: "'a \<Rightarrow> ('e, 'a) io" where
  "return x = (\<lambda>s. (Inr x, s, []))"

definition raise :: "'e \<Rightarrow> ('e, 'a) io" where
  "raise e = (\<lambda>s. (Inl e, s, []))"

definition bind :: "('e, 'a) io \<Rightarrow> ('a \<Rightarrow> ('e, 'b) io) \<Rightarrow> ('e, 'b) io" where
  "bind m f =
     (\<lambda>s. case m s of
        (Inl e, s', evs) \<Rightarrow> (Inl e, s', evs)
      | (Inr x, s', evs) \<Rightarrow> (case f x s' of (r, s'', evs') \<Rightarrow> (r, s'', evs @ evs')))"

text \<open>The answer of the world to a read: a value or an exception, the state unchanged.\<close>

definition lift :: "'e + 'a \<Rightarrow> ('e, 'a) io" where
  "lift r = (\<lambda>s. (r, s, []))"

definition emit :: "event \<Rightarrow> ('e, unit) io" where
  "emit ev = (\<lambda>s. (Inr (), s, [ev]))"

definition logger :: "log_line \<Rightarrow> ('e, unit) io" where
  "logger l = (\<lambda>s. (Inr (), s\<lparr>logs := logs s @ [l]\<rparr>, []))"

text \<open>\<^verbatim>\<open>try: body  except Exception as e: logger.error(f"{msg}: {e}"); raise\<close>\<close>

definition logged :: "string \<Rightarrow> (exn, 'a) io \<Rightarrow> (exn, 'a) io" where
  "logged msg body =
     (\<lambda>s. case body s of
        (Inl e, s', evs) \<Rightarrow> (Inl e, s'\<lparr>logs := logs s' @ [LogError msg e]\<rparr>, evs)
      | (Inr x, s', evs) \<Rightarrow> (Inr x, s', evs))"

text \<open>What a run from state \<open>s\<close> gives: its outcome, the state it leaves, its events.\<close>

definition outcome :: "('e, 'a) io \<Rightarrow> chain \<Rightarrow> 'e + 'a" where
  "outcome m s = fst (m s)"

definition final :: "('e, 'a) io \<Rightarrow> chain \<Rightarrow> chain" where
  "final m s = fst (snd (m s))"

definition events :: "('e, 'a) io \<Rightarrow> chain \<Rightarrow> event list" where
  "events m s = snd (snd (m s))"

section \<open>The action dispatch layer (src/actions/evm\_actions.py)\<close>

text \<open>
  The agent an action receives. Its connection manager is not part of the three source
  files, so \<open>perform_action\<close> is a parameter: given the connection name, the action name
  and the positional parameters it returns a value or raises. \<open>agent.logger\<close> appends to
  the log, which every action returns next to its result.
\<close>

record agent =
  perform_action :: "string \<Rightarrow> string \<Rightarrow> pyval list \<Rightarrow> base_exn + pyval"

type_synonym action = "agent \<Rightarrow> kwargs \<Rightarrow> (base_exn + pyval) \<times> log_line list"

text \<open>
  The body shared by the source's fifteen actions, which differ in the strings, the
  parameters and the value of the \<open>except\<close> branch only:
  \<^verbatim>\<open>
    agent.logger.info(start)
    try:
        result = agent.connection_manager.perform_action(
            connection_name="evm", action_name=name, params=params)
        agent.logger.info(done)      # f"{done}: {result}" in the query actions
        return result
    except Exception as e:
        agent.logger.error(f"{failed}: {str(e)}")
        return failure
  \<close>
  \<open>except Exception\<close> catches an \<open>Exception\<close> only: \<open>SystemExit\<close> and \<open>KeyboardInterrupt\<close>
  leave the action as they came.
\<close>

definition dispatch ::
  "string \<Rightarrow> string \<Rightarrow> pyval list \<Rightarrow> (pyval \<Rightarrow> log_line) \<Rightarrow> string \<Rightarrow> pyval \<Rightarrow> agent
     \<Rightarrow> (base_exn + pyval) \<times> log_line list" where
  "dispatch start name params done failed failure agent =
     (case perform_action agent ''evm'' name params of
        Inr result \<Rightarrow> (Inr result, [LogInfo start, done result])
      | Inl (Exception e) \<Rightarrow> (Inr failure, [LogInfo start, LogError failed e])
      | Inl (SystemExit n) \<Rightarrow> (Inl (SystemExit n), [LogInfo start])
      | Inl KeyboardInterrupt \<Rightarrow> (Inl KeyboardInterrupt, [LogInfo start]))"

definition evm_transfer :: action where
  "evm_transfer agent kwargs =
     dispatch ''INITIATING TRANSFER'' ''transfer''
       [kwargs_get kwargs ''to_address'' PNone, kwargs_get kwargs ''amount'' PNone,
        kwargs_get kwargs ''token_mint'' PNone]
       (\<lambda>_. LogInfo ''Transfer completed!'') ''Transfer failed'' (PBool False) agent"

definition evm_swap :: action where
  "evm_swap agent kwargs =
     dispatch ''INITIATING TOKEN SWAP'' ''trade''
       [kwargs_get kwargs ''output_mint'' PNone, kwargs_get kwargs ''input_amount'' PNone,
        kwargs_get kwargs ''input_mint'' PNone, kwargs_get kwargs ''slippage_bps'' (PInt 100)]
       (\<lambda>_. LogInfo ''Swap completed!'') ''Swap failed'' (PBool False) agent"

definition evm_balance :: action where
  "evm_balance agent kwargs =
     dispatch ''CHECKING BALANCE'' ''get-balance''
       [kwargs_get kwargs ''token_address'' PNone]
       (LogInfoVal ''Balance'') ''Balance check failed'' PNone agent"

definition evm_stake :: action where
  "evm_stake agent kwargs =
     dispatch ''INITIATING Native STAKE'' ''stake''
       [kwargs_get kwargs ''amount'' PNone]
       (\<lambda>_. LogInfo ''Staking completed!'') ''Staking failed'' (PBool False) agent"

definition evm_lend :: action where
  "evm_lend agent kwargs =
     dispatch ''INITIATING LENDING'' ''lend-assets''
       [kwargs_get kwargs ''amount'' PNone]
       (\<lambda>_. LogInfo ''Lending completed!'') ''Lending failed'' (PBool False) agent"

definition request_faucet_funds :: action where
  "request_faucet_funds agent kwargs =
     dispatch ''REQUESTING FAUCET FUNDS'' ''request-faucet'' []
       (\<lambda>_. LogInfo ''Faucet request completed!'') ''Faucet request failed'' (PBool False) agent"

definition evm_deploy_token :: action where
  "evm_deploy_token agent kwargs =
     dispatch ''DEPLOYING NEW TOKEN'' ''deploy-token''
       [kwargs_get kwargs ''decimals'' (PInt 9)]
       (\<lambda>_. LogInfo ''Token deployed!'') ''Token deployment failed'' (PBool False) agent"

definition evm_get_price :: action where
  "evm_get_price agent kwargs =
     dispatch ''FETCHING TOKEN PRICE'' ''fetch-price''
       [kwargs_get kwargs ''token_id'' PNone]
       (LogInfoVal ''Price'') ''Price fetch failed'' PNone agent"

definition evm_get_tps :: action where
  "evm_get_tps agent kwargs =
     dispatch ''FETCHING CURRENT TPS'' ''get-tps'' []
       (LogInfoVal ''Current TPS'') ''TPS fetch failed'' PNone agent"

definition get_token_data_by_ticker :: action where
  "get_token_data_by_ticker agent kwargs =
     dispatch ''FETCHING TOKEN DATA BY TICKER'' ''get-token-by-ticker''
       [kwargs_get kwargs ''ticker'' PNone]
       (\<lambda>_. LogInfo ''Token data retrieved!'') ''Token data fetch failed'' PNone agent"

definition get_token_data_by_address :: action where
  "get_token_data_by_address agent kwargs =
     dispatch ''FETCHING TOKEN DATA BY ADDRESS'' ''get-token-by-address''
       [kwargs_get kwargs ''mint'' PNone]
       (\<lambda>_. LogInfo ''Token data retrieved!'') ''Token data fetch failed'' PNone agent"

definition launch_pump_fun_token :: action where
  "launch_pump_fun_token agent kwargs =
     dispatch ''LAUNCHING PUMP & FUN TOKEN'' ''launch-pump-token''
       [kwargs_get kwargs ''token_name'' PNone, kwargs_get kwargs ''token_ticker'' PNone,
        kwargs_get kwargs ''description'' PNone, kwargs_get kwargs ''image_url'' PNone,
        kwargs_get kwargs ''options'' (PDict [])]
       (\<lambda>_. LogInfo ''Token launched successfully!'') ''Token launch failed'' (PBool False)
       agent"

definition list_contract_functions :: action where
  "list_contract_functions agent kwargs =
     dispatch ''LISTING CONTRACT FUNCTIONS'' ''list-contract-functions''
       [kwargs_get kwargs ''contract_address'' PNone]
       (\<lambda>_. LogInfo ''Contract functions listed!'') ''Contract functions listing failed''
       PNone agent"

definition call_contract_function :: action where
  "call_contract_function agent kwargs =
     dispatch ''CALLING CONTRACT FUNCTION'' ''call-contract-function''
       [kwargs_get kwargs ''contract_address'' PNone, kwargs_get kwargs ''function_name'' PNone,
        kwargs_get kwargs ''args'' (PList [])]
       (\<lambda>_. LogInfo ''Contract function called!'') ''Contract function call failed''
       PNone agent"

definition wrap_eth :: action where
  "wrap_eth agent kwargs =
     dispatch ''WRAPPING ETH TO WETH'' ''wrap-eth''
       [kwargs_get kwargs ''amount'' PNone]
       (\<lambda>_. LogInfo ''ETH wrapped to WETH!'') ''ETH wrapping failed'' (PBool False) agent"

text \<open>
  The registered actions, each with the \<open>action_name\<close> it passes to \<open>perform_action\<close>
  and the value its \<open>except\<close> branch returns: \<open>False\<close> for the actions that change
  something (transfer, swap, stake, lend, faucet, deploy, launch, wrap), \<open>None\<close> for the
  ones that read (balance, price, TPS, token data, contract functions and calls).
\<close>

definition evm_actions :: "(action \<times> string \<times> pyval) list" where
  "evm_actions =
     [(evm_transfer, ''transfer'', PBool False),
      (evm_swap, ''trade'', PBool False),
      (evm_balance, ''get-balance'', PNone),
      (evm_stake, ''stake'', PBool False),
      (evm_lend, ''lend-assets'', PBool False),
      (request_faucet_funds, ''request-faucet'', PBool False),
      (evm_deploy_token, ''deploy-token'', PBool False),
      (evm_get_price, ''fetch-price'', PNone),
      (evm_get_tps, ''get-tps'', PNone),
      (get_token_data_by_ticker, ''get-token-by-ticker'', PNone),
      (get_token_data_by_address, ''get-token-by-address'', PNone),
      (launch_pump_fun_token, ''launch-pump-token'', PBool False),
      (list_contract_functions, ''list-contract-functions'', PNone),
      (call_contract_function, ''call-contract-function'', PNone),
      (wrap_eth, ''wrap-eth'', PBool False)]"

text \<open>An agent whose every operation raises the given exception, and one whose operation
  of the given name raises it while every other returns \<open>None\<close>.\<close>

definition raising_agent :: "base_exn \<Rightarrow> agent" where
  "raising_agent b = \<lparr>perform_action = (\<lambda>_ _ _. Inl b)\<rparr>"

definition failing_on :: "string \<Rightarrow> base_exn \<Rightarrow> agent" where
  "failing_on name b =
     \<lparr>perform_action = (\<lambda>_ action_name _. if action_name = name then Inl b else Inr PNone)\<rparr>"

section \<open>The Sonic connection (src/connections/sonic\_connection.py)\<close>

text \<open>
  Everything \<open>SonicConnection\<close> reaches outside the repository, as the answers it gets:
  the environment, the RPC node behind web3, the aggregator behind \<open>requests\<close>, the clock,
  and the library functions that validate or convert a value. An answer is a value or an
  exception (\<open>Inl\<close>). \<open>KeyboardInterrupt\<close> and \<open>SystemExit\<close> are not among the answers:
  nothing on this path raises them, so every \<open>except Exception\<close> here catches all that can
  arrive.
  \<^item> \<open>web3_connected\<close>: \<open>_get_web3\<close> returns a connected instance;
    \<open>SONIC_PRIVATE_KEY\<close>: \<open>os.getenv('SONIC_PRIVATE_KEY')\<close>;
    \<open>account_from_key\<close>: the address of \<open>web3.eth.account.from_key(key)\<close>.
  \<^item> \<open>to_wei_ether\<close> is \<open>web3.to_wei(x, 'ether')\<close>; \<open>py_str_float\<close> and \<open>py_str_json\<close>
    are \<open>str()\<close> as an f-string applies it to a float and to a JSON value (\<open>None\<close> for a
    missing key).
  \<^item> \<open>allowance_error\<close> and \<open>transaction_count_error\<close> say whether the read of a
    value held in the state fails.
  \<^item> \<open>build_transaction_gas\<close> is the gas limit web3's \<open>build_transaction\<close> fills in
    when the caller gives none; \<open>estimate_gas\<close> is \<open>web3.eth.estimate_gas\<close> as the
    source calls it.
  \<^item> \<open>requests_get_routes\<close> and \<open>requests_post_build\<close> stand for the request,
    \<open>raise_for_status()\<close> and \<open>response.json()\<close> together: the parsed body, or the
    exception one of the three raised.
  \<^item> \<open>wait_for_transaction_receipt\<close> gives the receipt's \<open>status\<close> field (\<open>None\<close> when
    the receipt is empty or has none), or raises on time-out.
\<close>

record sonic_world =
  float_round :: "rat \<Rightarrow> rat"
  py_str_float :: "rat \<Rightarrow> string"
  py_str_json :: "json option \<Rightarrow> string"
  web3_connected :: bool
  SONIC_PRIVATE_KEY :: "string option"
  account_from_key :: "string \<Rightarrow> exn + address"
  to_checksum_address :: "string \<Rightarrow> exn + address"
  to_wei_ether :: "rat \<Rightarrow> exn + int"
  hex_bytes :: "string \<Rightarrow> exn + string"
  eth_get_balance :: "address \<Rightarrow> exn + int"
  erc20_balanceOf :: "address \<Rightarrow> address \<Rightarrow> exn + int"
  erc20_decimals :: "address \<Rightarrow> exn + nat"
  allowance_error :: "address \<Rightarrow> address \<Rightarrow> address \<Rightarrow> exn option"
  transaction_count_error :: "address \<Rightarrow> exn option"
  eth_gas_price :: "exn + int"
  eth_chain_id :: "exn + nat"
  build_transaction_gas :: "tx \<Rightarrow> exn + nat"
  estimate_gas :: "tx \<Rightarrow> exn + nat"
  send_raw_transaction :: "tx \<Rightarrow> exn + string"
  wait_for_transaction_receipt :: "string \<Rightarrow> exn + int option"
  aggregator_api :: string
  explorer :: string
  requests_get_routes :: "route_query \<Rightarrow> exn + json"
  requests_post_build :: "build_payload \<Rightarrow> exn + json"
  time_time :: rat

definition NATIVE_TOKEN :: string where
  "NATIVE_TOKEN = ''0xEeeeeEeeeEeEeeEeEeEeeEEEeeeeEeeeeeeeEEeE''"

text \<open>The address the source compares with in \<open>swap\<close>, commented \<open># $S token\<close>.\<close>

definition S_TOKEN :: string where
  "S_TOKEN = ''0x039e2fb66102314ce7b64ce5ce3e5183bc94ad38''"

definition get_explorer_link :: "sonic_world \<Rightarrow> string \<Rightarrow> string" where
  "get_explorer_link w tx_hash = explorer w @ ''/tx/'' @ tx_hash"

text \<open>\<^verbatim>\<open>web3 = self._get_web3(verbose=True); if not web3: raise SonicConnectionError(...)\<close>\<close>

definition require_web3 :: "sonic_world \<Rightarrow> (exn, unit) io" where
  "require_web3 w =
     (if web3_connected w then return ()
      else raise (SonicConnectionError ''Web3 not initialized''))"

text \<open>\<^verbatim>\<open>private_key = os.getenv('SONIC_PRIVATE_KEY'); if not private_key: raise ...\<close>\<close>

definition require_private_key :: "sonic_world \<Rightarrow> (exn, string) io" where
  "require_private_key w =
     (case SONIC_PRIVATE_KEY w of
        None \<Rightarrow> raise (SonicConnectionError ''No wallet configured'')
      | Some key \<Rightarrow>
          if key = [] then raise (SonicConnectionError ''No wallet configured'')
          else return key)"

text \<open>A value handed to web3 where it expects an address: anything but a string is refused.\<close>

definition as_address :: "json \<Rightarrow> exn + address" where
  "as_address v =
     (case v of JStr a \<Rightarrow> Inr a | _ \<Rightarrow> Inl (LibraryError ''not an address''))"

text \<open>The two reads of the state: \<open>allowance(owner, spender).call()\<close> on a token contract and
  \<open>web3.eth.get_transaction_count(address)\<close>.\<close>

definition call_allowance :: "sonic_world \<Rightarrow> address \<Rightarrow> address \<Rightarrow> address \<Rightarrow> (exn, int) io" where
  "call_allowance w token owner spender =
     bind (emit (CallAllowance token owner spender)) (\<lambda>_ s.
       case allowance_error w token owner spender of
         Some e \<Rightarrow> (Inl e, s, [])
       | None \<Rightarrow> (Inr (allowances s (token, owner, spender)), s, []))"

definition get_transaction_count :: "sonic_world \<Rightarrow> address \<Rightarrow> (exn, nat) io" where
  "get_transaction_count w a =
     (\<lambda>s. case transaction_count_error w a of
        Some e \<Rightarrow> (Inl e, s, [])
      | None \<Rightarrow> (Inr (nonces s a), s, []))"

text \<open>
  \<open>web3.eth.wait_for_transaction_receipt(tx_hash)\<close> for the transaction \<open>t\<close> just sent:
  when it returns a receipt the transaction is mined, with the effect \<open>mined\<close> describes.
\<close>

definition wait_receipt :: "sonic_world \<Rightarrow> tx \<Rightarrow> string \<Rightarrow> (exn, int option) io" where
  "wait_receipt w t tx_hash =
     (\<lambda>s. case wait_for_transaction_receipt w tx_hash of
        Inl e \<Rightarrow> (Inl e, s, [])
      | Inr status \<Rightarrow> (Inr status, mined t status s, []))"

text \<open>\<open>get_balance(address, token_address)\<close>, lines 217-251. The check
  \<open>isinstance(address, str)\<close> cannot fail on an argument of the declared type and has no
  counterpart. \<open>web3.from_wei(balance, 'ether')\<close> divides by \<open>10 ** 18\<close> exactly.\<close>

definition get_balance :: "sonic_world \<Rightarrow> address option \<Rightarrow> address option \<Rightarrow> (exn, rat) io" where
  "get_balance w address token_address =
     logged ''Failed to get balance''
      (bind (require_web3 w) (\<lambda>_.
       bind (if address = None \<or> address = Some []
             then bind (require_private_key w) (\<lambda>private_key.
                    lift (account_from_key w private_key))
             else return (the address)) (\<lambda>address.
       bind (lift (to_checksum_address w address)) (\<lambda>checksum_address.
       if token_address \<noteq> None \<and> token_address \<noteq> Some []
       then
         bind (lift (to_checksum_address w (the token_address))) (\<lambda>contract.
         bind (lift (erc20_balanceOf w contract checksum_address)) (\<lambda>balance.
         bind (lift (erc20_decimals w contract)) (\<lambda>decimals.
         return (float_round w (of_int balance / 10 ^ decimals)))))
       else
         bind (lift (eth_get_balance w checksum_address)) (\<lambda>balance.
         return (float_round w (of_int balance / 10 ^ 18)))))))"

text \<open>
  The source's functions \<open>_get_swap_route\<close>, \<open>_get_encoded_swap_data\<close> and
  \<open>_handle_token_approval\<close> appear below without the leading underscore, which an
  Isabelle name cannot have.

  Lines 321-330 of \<open>_get_swap_route\<close> (\<open># Convert amount to raw value\<close>): the input amount
  in raw units, by \<open>web3.to_wei(amount_in, 'ether')\<close> for the native token and by
  \<open>int(amount_in * (10 ** decimals))\<close>, with the decimals the token contract reports, for
  any other.
\<close>

definition amount_to_raw :: "sonic_world \<Rightarrow> string \<Rightarrow> rat \<Rightarrow> (exn, int) io" where
  "amount_to_raw w token_in amount_in =
     (if lower token_in = lower NATIVE_TOKEN
      then lift (to_wei_ether w amount_in)
      else
        bind (lift (to_checksum_address w token_in)) (\<lambda>token_contract.
        bind (lift (erc20_decimals w token_contract)) (\<lambda>decimals.
        return (py_int (float_round w (amount_in * float_round w (10 ^ decimals)))))))"

text \<open>\<open>_get_swap_route(token_in, token_out, amount_in)\<close>, lines 314-356. It returns the dict
  under \<open>"data"\<close> of the aggregator's answer.\<close>

definition get_swap_route ::
  "sonic_world \<Rightarrow> string \<Rightarrow> string \<Rightarrow> rat \<Rightarrow> (exn, (string \<times> json) list) io" where
  "get_swap_route w token_in token_out amount_in =
     logged ''Failed to get swap route''
      (bind (require_web3 w) (\<lambda>_.
       bind (amount_to_raw w token_in amount_in) (\<lambda>amount_raw.
       let params = \<lparr>tokenIn = token_in, tokenOut = token_out, amountIn = amount_raw,
                      gasInclude = ''true''\<rparr> in
       bind (emit (GetRoutes params)) (\<lambda>_.
       bind (lift (requests_get_routes w params)) (\<lambda>data.
       case data of
         JObj d \<Rightarrow>
           if ne_zero (dict_get d ''code'')
           then raise (SonicConnectionError
                         (''API error: '' @ py_str_json w (dict_get d ''message'')))
           else (case dict_get d ''data'' of
                   Some (JObj result) \<Rightarrow> return result
                 | _ \<Rightarrow> raise (SonicConnectionError ''Invalid route data returned from API''))
       | _ \<Rightarrow> raise (AttributeError ''object has no attribute 'get' ''))))))"

text \<open>\<open>_get_encoded_swap_data(route_summary, slippage)\<close>, lines 358-397. Its own default
  \<open>slippage=0.5\<close> is never used: \<open>swap\<close>, its one caller, always passes the argument.\<close>

definition get_encoded_swap_data :: "sonic_world \<Rightarrow> json \<Rightarrow> rat \<Rightarrow> (exn, string) io" where
  "get_encoded_swap_data w route_summary slippage =
     logged ''Failed to encode swap data''
      (bind (require_web3 w) (\<lambda>_.
       bind (require_private_key w) (\<lambda>private_key.
       bind (lift (account_from_key w private_key)) (\<lambda>account.
       let payload = \<lparr>routeSummary = route_summary, sender = account, recipient = account,
                       slippageTolerance = py_int (float_round w (slippage * 100)),
                       deadline = py_int (float_round w (time_time w + 1200)),
                       source = ''ZerePyBot''\<rparr> in
       bind (emit (PostRouteBuild payload)) (\<lambda>_.
       bind (lift (requests_post_build w payload)) (\<lambda>data.
       case data of
         JObj d \<Rightarrow>
           if ne_zero (dict_get d ''code'')
           then raise (SonicConnectionError
                         (''API error: '' @ py_str_json w (dict_get d ''message'')))
           else (case dict_get d ''data'' of
                   None \<Rightarrow> raise (SonicConnectionError
                                   ''Invalid encoded data returned from API'')
                 | Some (JObj inner) \<Rightarrow>
                     (case dict_get inner ''data'' of
                        Some (JStr encoded_data) \<Rightarrow> return encoded_data
                      | _ \<Rightarrow> raise (SonicConnectionError
                                     ''Invalid encoded data returned from API''))
                 | Some _ \<Rightarrow> raise (AttributeError ''object has no attribute 'get' ''))
       | _ \<Rightarrow> raise (AttributeError ''object has no attribute 'get' '')))))))"

text \<open>\<open>_handle_token_approval(token_address, spender_address, amount)\<close>, lines 399-447.
  \<open>swap\<close> passes as spender the value it found in the route data, whatever its type.\<close>

definition handle_token_approval :: "sonic_world \<Rightarrow> string \<Rightarrow> json \<Rightarrow> int \<Rightarrow> (exn, unit) io" where
  "handle_token_approval w token_address spender_address amount =
     logged ''Approval failed''
      (bind (require_web3 w) (\<lambda>_.
       bind (require_private_key w) (\<lambda>private_key.
       bind (lift (account_from_key w private_key)) (\<lambda>account.
       bind (lift (to_checksum_address w token_address)) (\<lambda>token_contract.
       bind (lift (as_address spender_address)) (\<lambda>spender.
       bind (call_allowance w token_contract account spender) (\<lambda>current_allowance.
       if current_allowance < amount
       then
         bind (get_transaction_count w account) (\<lambda>nonce.
         bind (lift (eth_gas_price w)) (\<lambda>gas_price.
         bind (lift (eth_chain_id w)) (\<lambda>chain_id.
         let built = \<lparr>tx_from = account, tx_to = token_contract,
                       tx_data = ApproveCall spender amount, tx_value = 0,
                       tx_nonce = Some nonce, tx_gasPrice = gas_price, tx_chainId = chain_id,
                       tx_gas = None\<rparr> in
         bind (lift (build_transaction_gas w built)) (\<lambda>gas.
         let approve_tx = built\<lparr>tx_gas := Some gas\<rparr> in
         bind (emit (SendRawTransaction approve_tx)) (\<lambda>_.
         bind (lift (send_raw_transaction w approve_tx)) (\<lambda>tx_hash.
         bind (logger (LogInfo (''Approval transaction sent: '' @ get_explorer_link w tx_hash)))
           (\<lambda>_.
         bind (wait_receipt w approve_tx tx_hash) (\<lambda>status.
         if status \<noteq> Some 1
         then raise (SonicConnectionError ''Approval transaction failed'')
         else return ()))))))))
       else return ())))))))"

text \<open>
  The amount \<open>swap\<close> asks the approval for, lines 484-493: for the \<open>$S\<close> token address
  \<open>web3.to_wei(amount, 'ether')\<close>, with no read of the token's decimals; for any other
  token \<open>int(amount * (10 ** decimals))\<close> with the decimals the contract reports.
\<close>

definition approval_amount :: "sonic_world \<Rightarrow> string \<Rightarrow> rat \<Rightarrow> (exn, int) io" where
  "approval_amount w token_in amount =
     (if lower token_in = lower S_TOKEN
      then lift (to_wei_ether w amount)
      else
        bind (lift (to_checksum_address w token_in)) (\<lambda>token_contract.
        bind (lift (erc20_decimals w token_contract)) (\<lambda>decimals.
        return (py_int (float_round w (amount * float_round w (10 ^ decimals)))))))"

text \<open>
  The \<open>'value'\<close> entry of the swap transaction, line 504: \<open>web3.to_wei(amount, 'ether')\<close>
  for the native token, zero for any other.
\<close>

definition swap_value :: "sonic_world \<Rightarrow> string \<Rightarrow> rat \<Rightarrow> (exn, int) io" where
  "swap_value w token_in amount =
     (if lower token_in = lower NATIVE_TOKEN then lift (to_wei_ether w amount) else return 0)"

text \<open>
  Lines 507-512 (\<open># Estimate gas\<close>):
  \<^verbatim>\<open>
    try:
        base_tx['gas'] = web3.eth.estimate_gas(base_tx)
    except Exception as e:
        logger.warning(f"Gas estimation failed: {e}, using default gas limit")
        base_tx['gas'] = 500000  # Default gas limit
  \<close>
\<close>

definition estimate_or_default :: "sonic_world \<Rightarrow> tx \<Rightarrow> (exn, nat) io" where
  "estimate_or_default w base_tx =
     bind (emit (EstimateGas base_tx)) (\<lambda>_.
     case estimate_gas w base_tx of
       Inr gas \<Rightarrow> return gas
     | Inl e \<Rightarrow>
         bind (logger (LogWarning ''Gas estimation failed'' e)) (\<lambda>_.
         return 500000))"

text \<open>
  The last part of \<open>swap\<close>, lines 496-525 (from \<open># Prepare transaction\<close> to the
  \<open>return\<close>), on the values the first part has computed. The dict literal evaluates its
  entries in the order written. Signing is local and does not fail. The emoji that opens
  the returned string is left out.
\<close>

definition send_swap_transaction ::
  "sonic_world \<Rightarrow> address \<Rightarrow> string \<Rightarrow> rat \<Rightarrow> json \<Rightarrow> string \<Rightarrow> (exn, string) io" where
  "send_swap_transaction w account token_in amount router_address encoded_data =
     bind (lift (case as_address router_address of
                   Inl e \<Rightarrow> Inl e
                 | Inr a \<Rightarrow> to_checksum_address w a)) (\<lambda>router.
     bind (lift (hex_bytes w encoded_data)) (\<lambda>data.
     bind (get_transaction_count w account) (\<lambda>nonce.
     bind (lift (eth_gas_price w)) (\<lambda>gas_price.
     bind (lift (eth_chain_id w)) (\<lambda>chain_id.
     bind (swap_value w token_in amount) (\<lambda>val.
     let base_tx = \<lparr>tx_from = account, tx_to = router, tx_data = EncodedData data,
                     tx_value = val, tx_nonce = Some nonce, tx_gasPrice = gas_price,
                     tx_chainId = chain_id, tx_gas = None\<rparr> in
     bind (estimate_or_default w base_tx) (\<lambda>gas.
     let signed_tx = base_tx\<lparr>tx_gas := Some gas\<rparr> in
     bind (emit (SendRawTransaction signed_tx)) (\<lambda>_.
     bind (lift (send_raw_transaction w signed_tx)) (\<lambda>tx_hash.
     bind (wait_receipt w signed_tx tx_hash) (\<lambda>status.
     if status \<noteq> Some 1
     then raise (SonicConnectionError ''Swap transaction failed'')
     else return (''Swap transaction sent: '' @ get_explorer_link w tx_hash)))))))))))"

text \<open>
  \<open>swap(token_in, token_out, amount, slippage=0.5)\<close>, lines 449-529. The optional last
  argument is \<open>None\<close> when the caller leaves it out.
\<close>

definition swap ::
  "sonic_world \<Rightarrow> string \<Rightarrow> string \<Rightarrow> rat \<Rightarrow> rat option \<Rightarrow> (exn, string) io" where
  "swap w token_in token_out amount slippage_arg =
     (let slippage = (case slippage_arg of None \<Rightarrow> 1 / 2 | Some x \<Rightarrow> x) in
      logged ''Swap failed''
      (bind (require_web3 w) (\<lambda>_.
       bind (require_private_key w) (\<lambda>private_key.
       bind (lift (account_from_key w private_key)) (\<lambda>account.
       bind (get_balance w (Some account)
               (if lower token_in = lower NATIVE_TOKEN then None else Some token_in))
         (\<lambda>current_balance.
       if current_balance < amount
       then raise (ValueError (''Insufficient balance. Required: '' @ py_str_float w amount
                    @ '', Available: '' @ py_str_float w current_balance))
       else
       bind (get_swap_route w token_in token_out amount) (\<lambda>route_data.
       bind (case dict_get route_data ''routeSummary'' of
               None \<Rightarrow> raise (KeyError ''routeSummary'')
             | Some route_summary \<Rightarrow> get_encoded_swap_data w route_summary slippage)
         (\<lambda>encoded_data.
       case dict_get route_data ''routerAddress'' of
         None \<Rightarrow> raise (SonicConnectionError ''No router address in route data'')
       | Some router_address \<Rightarrow>
       if \<not> truthy router_address
       then raise (SonicConnectionError ''No router address in route data'')
       else
       bind (if lower token_in \<noteq> lower NATIVE_TOKEN
             then bind (approval_amount w token_in amount) (\<lambda>amount_raw.
                    handle_token_approval w token_in router_address amount_raw)
             else return ()) (\<lambda>_.
       send_swap_transaction w account token_in amount router_address encoded_data
       )))))))))"

section \<open>The Uniswap trade helper (src/helpers/evm/trade.py)\<close>

text \<open>
  What \<open>fetch_erc20_details\<close> returns: the token contract's address, symbol and decimals.
\<close>

record token_details =
  token_address :: address
  token_symbol :: string
  token_decimals :: nat

text \<open>
  Everything \<open>EvmTradeHelper.trade\<close> reaches outside the three source files, as the
  answers it gets. An answer is a value or an exception of class \<open>Exception\<close>.
  \<^item> \<open>from_key\<close>: the address of \<open>Account.from_key(private_key)\<close>.
  \<^item> \<open>swap_router\<close>: \<open>fetch_deployment(...)\<close> on the addresses of
    \<open>UNISWAP_V3_DEPLOYMENTS["ethereum"]\<close>, as the address of its \<open>swap_router\<close>.
  \<^item> \<open>fetch_erc20_details\<close>, \<open>fetch_balance_of\<close>, \<open>convert_to_raw\<close>,
    \<open>swap_with_slippage_protection\<close> (given the quote token, the base token, the slippage,
    the raw amount and the recipient: the call data of the bound router function),
    \<open>wait_transactions_to_complete\<close> (hash and \<open>status\<close> of each receipt) and
    \<open>fetch_transaction_revert_reason\<close> are eth_defi's.
  \<^item> \<open>read_contract_decimals\<close> is
    \<open>EvmContractHelper.read_contract(web3, input_token, "decimals")\<close>; the helper and the
    constants \<open>GAS\<close>, \<open>GAS_PRICE\<close>, \<open>GAS_PRICE_UNIT\<close> are code of the repository outside
    the three source files, so they are parameters. \<open>gas_price_wei\<close> is
    \<open>web3.to_wei(GAS_PRICE, GAS_PRICE_UNIT)\<close>.
  \<^item> \<open>stdin_input\<close> is what \<open>input("Ok [y/n]?")\<close> reads.
  \<^item> \<open>quote_allowance_error\<close> and \<open>nonce_error\<close> say whether the read of a value held
    in the state fails; \<open>send_transaction\<close> is \<open>web3.eth.send_transaction\<close> through the
    signing middleware.
\<close>

record trade_world =
  float_rounding :: "rat \<Rightarrow> rat"
  from_key :: "string \<Rightarrow> exn + address"
  block_number :: "exn + nat"
  chain_id :: "exn + nat"
  swap_router :: "exn + address"
  fetch_erc20_details :: "address option \<Rightarrow> exn + token_details"
  native_balance :: "address \<Rightarrow> exn + int"
  fetch_balance_of :: "token_details \<Rightarrow> address \<Rightarrow> exn + rat"
  read_contract_decimals :: "address option \<Rightarrow> exn + nat"
  stdin_input :: "exn + string"
  convert_to_raw :: "token_details \<Rightarrow> rat \<Rightarrow> exn + int"
  quote_allowance_error :: "address \<Rightarrow> address \<Rightarrow> address \<Rightarrow> exn option"
  GAS :: nat
  gas_price_wei :: "exn + int"
  swap_with_slippage_protection ::
    "token_details \<Rightarrow> token_details \<Rightarrow> int \<Rightarrow> int \<Rightarrow> address \<Rightarrow> exn + string"
  nonce_error :: "address \<Rightarrow> exn option"
  send_transaction :: "tx \<Rightarrow> exn + string"
  wait_transactions_to_complete :: "string list \<Rightarrow> exn + (string \<times> int) list"
  fetch_transaction_revert_reason :: "string \<Rightarrow> exn + string"

text \<open>A call into a library: the exception it raises is an \<open>Exception\<close>.\<close>

definition call :: "exn + 'a \<Rightarrow> (base_exn, 'a) io" where
  "call r = lift (case r of Inl e \<Rightarrow> Inl (Exception e) | Inr x \<Rightarrow> Inr x)"

definition quote_allowance ::
  "trade_world \<Rightarrow> address \<Rightarrow> address \<Rightarrow> address \<Rightarrow> (base_exn, int) io" where
  "quote_allowance w token owner spender =
     bind (emit (CallAllowance token owner spender)) (\<lambda>_ s.
       case quote_allowance_error w token owner spender of
         Some e \<Rightarrow> (Inl (Exception e), s, [])
       | None \<Rightarrow> (Inr (allowances s (token, owner, spender)), s, []))"

definition transaction_count :: "trade_world \<Rightarrow> address \<Rightarrow> (base_exn, nat) io" where
  "transaction_count w a =
     (\<lambda>s. case nonce_error w a of
        Some e \<Rightarrow> (Inl (Exception e), s, [])
      | None \<Rightarrow> (Inr (nonces s a), s, []))"

text \<open>
  Lines 198-205, the loop over the receipts: the first one with status 0 raises
  \<open>AssertionError\<close> with the revert reason fetched for it.
\<close>

fun check_receipts :: "trade_world \<Rightarrow> (string \<times> int) list \<Rightarrow> (base_exn, unit) io" where
  "check_receipts w [] = return ()"
| "check_receipts w ((completed_tx_hash, status) # receipts) =
     (if status = 0
      then bind (call (fetch_transaction_revert_reason w completed_tx_hash)) (\<lambda>revert_reason.
           raise (Exception (AssertionError
                    (''Our transaction '' @ completed_tx_hash @ '' failed because of: ''
                     @ revert_reason))))
      else check_receipts w receipts)"

text \<open>
  Lines 184-216, what follows the broadcast once both hashes are at hand. The function
  has no \<open>return\<close> statement: it ends by returning \<open>None\<close>.
\<close>

definition after_broadcast ::
  "trade_world \<Rightarrow> address \<Rightarrow> token_details \<Rightarrow> token_details \<Rightarrow> string \<Rightarrow> string
     \<Rightarrow> (base_exn, string option) io" where
  "after_broadcast w my_address base quote tx_hash_1 tx_hash_2 =
     bind (logger (LogDebug ''Broadcasted transactions {tx_hash_1}, {tx_hash_2}, now waiting'')) (\<lambda>_.
     bind (logger (LogDebug ''View your transactions confirming at https://polygonscan/address/{my_address}'')) (\<lambda>_.
     bind (call (wait_transactions_to_complete w [tx_hash_2])) (\<lambda>receipts.
     bind (check_receipts w receipts) (\<lambda>_.
     bind (logger (LogDebug ''All ok!'')) (\<lambda>_.
     bind (call (fetch_balance_of w base my_address)) (\<lambda>_.
     bind (logger (LogDebug ''After swap, you have {balance} {base.symbol}'')) (\<lambda>_.
     bind (call (fetch_balance_of w quote my_address)) (\<lambda>_.
     bind (logger (LogDebug ''After swap, you have {balance} {quote.symbol}'')) (\<lambda>_.
     bind (logger (LogDebug ''After swap, you have {gas_balance} native token left'')) (\<lambda>_.
     return None))))))))))"

text \<open>
  \<open>trade(web3, private_key, output_token, input_amount, input_token, slippage_bps=100)\<close>,
  lines 26-216. A debug message is logged as its literal text; the reads an f-string
  makes while it is built are made. \<open>Decimal(input_amount)\<close> cannot fail on a float, so the
  \<open>except\<close> of lines 84-85 has no counterpart. \<open>tx_1\<close>, the approval built in lines
  121-131, is bound and never used: the line that would send it, 177, is a comment,
  \<^verbatim>\<open># tx_hash_1 = web3.eth.send_transaction(tx_1)\<close>, so the name \<open>tx_hash_1\<close> is bound
  nowhere in the function (unbound is \<open>None\<close> below), and line 186, which formats
  \<open>tx_hash_1.hex()\<close>, raises \<open>NameError\<close>. \<open>build_transaction\<close> reads the chain id to
  complete the transaction.
\<close>

definition trade ::
  "trade_world \<Rightarrow> string \<Rightarrow> string \<Rightarrow> rat \<Rightarrow> string option \<Rightarrow> int option
     \<Rightarrow> (base_exn, string option) io" where
  "trade w private_key output_token input_amount input_token slippage_arg =
     (let slippage_bps = (case slippage_arg of None \<Rightarrow> 100 | Some b \<Rightarrow> b) in
      bind (call (from_key w private_key)) (\<lambda>my_address.
      bind (call (block_number w)) (\<lambda>block_height.
      bind (logger (LogDebug ''BLOCK NUMBER: {block_height}'')) (\<lambda>_.
      bind (call (chain_id w)) (\<lambda>_.
      bind (call (block_number w)) (\<lambda>_.
      bind (logger (LogDebug ''Connected to blockchain, chain id is {chain_id}. the latest block is {block_number}'')) (\<lambda>_.
      bind (call (swap_router w)) (\<lambda>router.
      bind (logger (LogDebug ''Using Uniwap v3 compatible router at {router}'')) (\<lambda>_.
      bind (call (fetch_erc20_details w (Some output_token))) (\<lambda>base.
      bind (call (fetch_erc20_details w input_token)) (\<lambda>quote.
      bind (call (native_balance w my_address)) (\<lambda>gas_balance.
      bind (logger (LogDebug ''Your address is {my_address}'')) (\<lambda>_.
      bind (call (fetch_balance_of w base my_address)) (\<lambda>_.
      bind (logger (LogDebug ''Your have {balance} {base.symbol}'')) (\<lambda>_.
      bind (call (fetch_balance_of w quote my_address)) (\<lambda>_.
      bind (logger (LogDebug ''Your have {balance} {quote.symbol}'')) (\<lambda>_.
      bind (logger (LogDebug ''Your have {gas_balance} for gas fees'')) (\<lambda>_.
      bind (call (fetch_balance_of w quote my_address)) (\<lambda>quote_balance.
      if \<not> quote_balance > 0
      then raise (Exception (AssertionError
                   (''Cannot perform swap, as you have zero '' @ token_symbol quote
                    @ '' needed to swap'')))
      else
      bind (call (read_contract_decimals w input_token)) (\<lambda>decimals.
      bind (logger (LogInfo ''Confirm swap amount {decimal_amount} {quote.symbol} to {base.symbol}'')) (\<lambda>_.
      bind (call (stdin_input w)) (\<lambda>confirm.
      if \<not> (case lower confirm of [] \<Rightarrow> False | c # _ \<Rightarrow> c = CHR ''y'')
      then bind (logger (LogDebug ''Aborted'')) (\<lambda>_. raise (SystemExit 1))
      else
      bind (call (convert_to_raw w quote input_amount)) (\<lambda>raw_amount.
      bind (quote_allowance w (token_address quote) my_address router) (\<lambda>allowance.
      let needs_approval = float_rounding w (of_int allowance / 10 ^ decimals) in
      bind (logger (LogDebug ''Needs approval: {needs_approval} {quote.symbol} to spend {raw_amount} {quote.symbol}'')) (\<lambda>_.
      bind (if needs_approval \<ge> of_int raw_amount
            then bind (logger (LogDebug ''Already approved'')) (\<lambda>_. return None)
            else
              bind (logger (LogDebug ''Approving'')) (\<lambda>_.
              bind (call (gas_price_wei w)) (\<lambda>gas_price.
              bind (call (chain_id w)) (\<lambda>chain.
              return (Some \<lparr>tx_from = my_address, tx_to = token_address quote,
                             tx_data = ApproveCall router raw_amount, tx_value = 0,
                             tx_nonce = None, tx_gasPrice = gas_price, tx_chainId = chain,
                             tx_gas = Some (GAS w)\<rparr>))))) (\<lambda>tx_1.
      bind (call (swap_with_slippage_protection w base quote slippage_bps raw_amount
                    my_address)) (\<lambda>bound_solidity_func.
      bind (transaction_count w my_address) (\<lambda>nonce.
      bind (call (gas_price_wei w)) (\<lambda>gas_price.
      bind (call (chain_id w)) (\<lambda>chain.
      let tx_2 = \<lparr>tx_from = my_address, tx_to = router,
                   tx_data = EncodedData bound_solidity_func, tx_value = 0,
                   tx_nonce = Some nonce, tx_gasPrice = gas_price, tx_chainId = chain,
                   tx_gas = Some (GAS w)\<rparr>;
          tx_hash_1 = (None :: string option) in
      bind (emit (SendTransaction tx_2)) (\<lambda>_.
      bind (call (send_transaction w tx_2)) (\<lambda>tx_hash_2.
      case tx_hash_1 of
        None \<Rightarrow> raise (Exception (NameError ''name 'tx_hash_1' is not defined''))
      | Some tx_hash_1 \<Rightarrow> after_broadcast w my_address base quote tx_hash_1 tx_hash_2
      ))))))))))))))))))))))))))))))))"

section \<open>Worlds and states for the examples\<close>

text \<open>
  A world in which every request succeeds except gas estimation: a wallet at \<open>0xA11ce\<close>
  holding 5 units of a token with 6 decimals (and 5 of the native token), a route through
  \<open>0xRouter\<close>, and receipts with status 1. Its rounding is the identity; the amounts used
  with it (1, 5, 10, 0.5) and their products are numbers a double holds exactly.
\<close>

definition example_world :: sonic_world where
  "example_world =
     \<lparr>float_round = (\<lambda>x. x),
      py_str_float = (\<lambda>x. if x = 10 then ''10.0'' else if x = 5 then ''5.0'' else ''1.0''),
      py_str_json = (\<lambda>v. case v of Some (JStr m) \<Rightarrow> m | _ \<Rightarrow> ''None''),
      web3_connected = True,
      SONIC_PRIVATE_KEY = Some ''0xkey'',
      account_from_key = (\<lambda>_. Inr ''0xA11ce''),
      to_checksum_address = Inr,
      to_wei_ether = (\<lambda>x. Inr (py_int (x * 10 ^ 18))),
      hex_bytes = Inr,
      eth_get_balance = (\<lambda>_. Inr (5 * 10 ^ 18)),
      erc20_balanceOf = (\<lambda>_ _. Inr 5000000),
      erc20_decimals = (\<lambda>_. Inr 6),
      allowance_error = (\<lambda>_ _ _. None),
      transaction_count_error = (\<lambda>_. None),
      eth_gas_price = Inr 1,
      eth_chain_id = Inr 146,
      build_transaction_gas = (\<lambda>_. Inr 60000),
      estimate_gas = (\<lambda>_. Inl (LibraryError ''execution reverted'')),
      send_raw_transaction =
        (\<lambda>t. Inr (case tx_data t of ApproveCall _ _ \<Rightarrow> ''0xaa'' | EncodedData _ \<Rightarrow> ''0xbb'')),
      wait_for_transaction_receipt = (\<lambda>_. Inr (Some 1)),
      aggregator_api = ''https://aggregator'',
      explorer = ''https://explorer'',
      requests_get_routes =
        (\<lambda>_. Inr (JObj [(''code'', JNum 0),
                         (''data'', JObj [(''routeSummary'', JObj []),
                                          (''routerAddress'', JStr ''0xRouter'')])])),
      requests_post_build =
        (\<lambda>_. Inr (JObj [(''code'', JNum 0), (''data'', JObj [(''data'', JStr ''0xdeadbeef'')])])),
      time_time = 1700000000\<rparr>"

text \<open>The same world with an aggregator that answers the route query with \<open>code = 4\<close>.\<close>

definition no_route_world :: sonic_world where
  "no_route_world =
     example_world\<lparr>requests_get_routes :=
       (\<lambda>_. Inr (JObj [(''code'', JNum 4), (''message'', JStr ''route not found'')]))\<rparr>"

text \<open>The same world with an aggregator that answers the build request with \<open>code = 4002\<close>.\<close>

definition no_build_world :: sonic_world where
  "no_build_world =
     example_world\<lparr>requests_post_build :=
       (\<lambda>_. Inr (JObj [(''code'', JNum 4002), (''message'', JStr ''bad route'')]))\<rparr>"

text \<open>The same world with a chain on which every transaction reverts (status 0).\<close>

definition reverting_world :: sonic_world where
  "reverting_world = example_world\<lparr>wait_for_transaction_receipt := (\<lambda>_. Inr (Some 0))\<rparr>"

text \<open>A chain with no allowance granted, and one where every allowance is 1000000.\<close>

definition empty_chain :: chain where
  "empty_chain = \<lparr>allowances = (\<lambda>_. 0), nonces = (\<lambda>_. 0), logs = []\<rparr>"

definition approved_chain :: chain where
  "approved_chain = \<lparr>allowances = (\<lambda>_. 1000000), nonces = (\<lambda>_. 0), logs = []\<rparr>"

text \<open>
  A world for the trade helper: the same wallet, tokens with 6 decimals, a user who
  answers \<open>y\<close>, and a node that accepts every transaction.
\<close>

definition example_trade_world :: trade_world where
  "example_trade_world =
     \<lparr>float_rounding = (\<lambda>x. x),
      from_key = (\<lambda>_. Inr ''0xA11ce''),
      block_number = Inr 100,
      chain_id = Inr 1,
      swap_router = Inr ''0xRouter'',
      fetch_erc20_details =
        (\<lambda>a. case a of
           None \<Rightarrow> Inl (LibraryError ''no token'')
         | Some t \<Rightarrow> Inr \<lparr>token_address = t, token_symbol = ''TKN'', token_decimals = 6\<rparr>),
      native_balance = (\<lambda>_. Inr (10 ^ 18)),
      fetch_balance_of = (\<lambda>_ _. Inr 5),
      read_contract_decimals = (\<lambda>_. Inr 6),
      stdin_input = Inr ''y'',
      convert_to_raw = (\<lambda>_ x. Inr (py_int (x * 10 ^ 6))),
      quote_allowance_error = (\<lambda>_ _ _. None),
      GAS = 300000,
      gas_price_wei = Inr 1000000000,
      swap_with_slippage_protection = (\<lambda>_ _ _ _ _. Inr ''0xc04b8d59''),
      nonce_error = (\<lambda>_. None),
      send_transaction = (\<lambda>_. Inr ''0xbb''),
      wait_transactions_to_complete = (\<lambda>hs. Inr (map (\<lambda>h. (h, 1)) hs)),
      fetch_transaction_revert_reason = (\<lambda>_. Inr ''reverted'')\<rparr>"

section \<open>Reasoning about calls\<close>

text \<open>
  \<open>wp m Q s\<close>: the run of \<open>m\<close> from \<open>s\<close> ends with an outcome, a state and events that
  satisfy \<open>Q\<close>. \<open>logged_post\<close> and \<open>logged_then\<close> are what \<open>Q\<close> becomes under a
  \<open>try\<close> that logs and raises again, at the end of a function and before the rest of its
  caller.
\<close>

definition wp ::
  "('e, 'a) io \<Rightarrow> (('e + 'a) \<Rightarrow> chain \<Rightarrow> event list \<Rightarrow> bool) \<Rightarrow> chain \<Rightarrow> bool" where
  "wp m Q s = (case m s of (r, s', evs) \<Rightarrow> Q r s' evs)"

definition logged_post ::
  "string \<Rightarrow> ((exn + 'a) \<Rightarrow> chain \<Rightarrow> event list \<Rightarrow> bool)
     \<Rightarrow> (exn + 'a) \<Rightarrow> chain \<Rightarrow> event list \<Rightarrow> bool" where
  "logged_post msg Q =
     (\<lambda>r s' evs. case r of
        Inl e \<Rightarrow> Q (Inl e) (s'\<lparr>logs := logs s' @ [LogError msg e]\<rparr>) evs
      | Inr x \<Rightarrow> Q (Inr x) s' evs)"

definition logged_then ::
  "string \<Rightarrow> ('a \<Rightarrow> (exn, 'b) io) \<Rightarrow> ((exn + 'b) \<Rightarrow> chain \<Rightarrow> event list \<Rightarrow> bool)
     \<Rightarrow> (exn + 'a) \<Rightarrow> chain \<Rightarrow> event list \<Rightarrow> bool" where
  "logged_then msg f Q =
     (\<lambda>r s' evs. case r of
        Inl e \<Rightarrow> Q (Inl e) (s'\<lparr>logs := logs s' @ [LogError msg e]\<rparr>) evs
      | Inr x \<Rightarrow> wp (f x) (\<lambda>r' s'' evs'. Q r' s'' (evs @ evs')) s')"

text \<open>
  \<open>routed w evs router\<close>: \<open>router\<close> is the \<open>routerAddress\<close> of the route data the
  aggregator returned to a route query among \<open>evs\<close>.
\<close>

definition routed :: "sonic_world \<Rightarrow> event list \<Rightarrow> address \<Rightarrow> bool" where
  "routed w evs router \<longleftrightarrow>
     (\<exists>q d route_data. GetRoutes q \<in> set evs \<and> requests_get_routes w q = Inr (JObj d) \<and>
        dict_get d ''data'' = Some (JObj route_data) \<and>
        dict_get route_data ''routerAddress'' = Some (JStr router))"

section \<open>Rules for runs\<close>

lemma wp_outcome: "wp m Q s \<longleftrightarrow> Q (outcome m s) (final m s) (events m s)"
  by (simp add: wp_def outcome_def final_def events_def split: prod.split)

lemma events_bind:
  "events (bind m f) s =
     events m s @ (case outcome m s of Inl e \<Rightarrow> [] | Inr x \<Rightarrow> events (f x) (final m s))"
  by (simp add: bind_def outcome_def final_def events_def split: prod.split sum.split)

lemma bind_assoc: "bind (bind m g) f = bind m (\<lambda>x. bind (g x) f)"
  by (simp add: bind_def fun_eq_iff split: prod.split sum.split)

subsection \<open>The last statement of a body\<close>

lemma wpI_return: "Q (Inr x) s [] \<Longrightarrow> wp (return x) Q s"
  by (simp add: wp_def return_def)

lemma wpI_raise: "Q (Inl e) s [] \<Longrightarrow> wp (raise e) Q s"
  by (simp add: wp_def raise_def)

lemma wpI_lift:
  "(\<And>e. r = Inl e \<Longrightarrow> Q (Inl e) s []) \<Longrightarrow> (\<And>x. r = Inr x \<Longrightarrow> Q (Inr x) s [])
   \<Longrightarrow> wp (lift r) Q s"
  by (cases r) (simp_all add: wp_def lift_def)

lemma wpI_if: "(c \<Longrightarrow> wp a Q s) \<Longrightarrow> (\<not> c \<Longrightarrow> wp b Q s) \<Longrightarrow> wp (if c then a else b) Q s"
  by simp

lemma wpI_case_option:
  "(x = None \<Longrightarrow> wp a Q s) \<Longrightarrow> (\<And>y. x = Some y \<Longrightarrow> wp (b y) Q s)
   \<Longrightarrow> wp (case x of None \<Rightarrow> a | Some y \<Rightarrow> b y) Q s"
  by (simp split: option.split)

lemma wpI_case_sum:
  "(\<And>e. x = Inl e \<Longrightarrow> wp (a e) Q s) \<Longrightarrow> (\<And>y. x = Inr y \<Longrightarrow> wp (b y) Q s)
   \<Longrightarrow> wp (case x of Inl e \<Rightarrow> a e | Inr y \<Rightarrow> b y) Q s"
  by (simp split: sum.split)

lemma wpI_case_json:
  "(j = JNull \<Longrightarrow> wp a Q s) \<Longrightarrow> (\<And>b. j = JBool b \<Longrightarrow> wp (f1 b) Q s)
   \<Longrightarrow> (\<And>n. j = JNum n \<Longrightarrow> wp (f2 n) Q s) \<Longrightarrow> (\<And>x. j = JStr x \<Longrightarrow> wp (f3 x) Q s)
   \<Longrightarrow> (\<And>xs. j = JArr xs \<Longrightarrow> wp (f4 xs) Q s) \<Longrightarrow> (\<And>d. j = JObj d \<Longrightarrow> wp (f5 d) Q s)
   \<Longrightarrow> wp (case j of JNull \<Rightarrow> a | JBool b \<Rightarrow> f1 b | JNum n \<Rightarrow> f2 n | JStr x \<Rightarrow> f3 x
             | JArr xs \<Rightarrow> f4 xs | JObj d \<Rightarrow> f5 d) Q s"
  by (simp split: json.split)

lemma wpI_logged: "wp m (logged_post msg Q) s \<Longrightarrow> wp (logged msg m) Q s"
  by (simp add: wp_def logged_def logged_post_def split: prod.splits sum.splits)

lemma logged_postI_Inl:
  "Q (Inl e) (s'\<lparr>logs := logs s' @ [LogError msg e]\<rparr>) evs \<Longrightarrow> logged_post msg Q (Inl e) s' evs"
  by (simp add: logged_post_def)

lemma logged_postI_Inr: "Q (Inr x) s' evs \<Longrightarrow> logged_post msg Q (Inr x) s' evs"
  by (simp add: logged_post_def)

lemma logged_thenI_Inl:
  "Q (Inl e) (s'\<lparr>logs := logs s' @ [LogError msg e]\<rparr>) evs
   \<Longrightarrow> logged_then msg f Q (Inl e) s' evs"
  by (simp add: logged_then_def)

lemma logged_thenI_Inr:
  "wp (f x) (\<lambda>r' s'' evs'. Q r' s'' (evs @ evs')) s' \<Longrightarrow> logged_then msg f Q (Inr x) s' evs"
  by (simp add: logged_then_def)

subsection \<open>A statement followed by the rest\<close>

lemma wpI_bind_lift:
  "(\<And>e. r = Inl e \<Longrightarrow> Q (Inl e) s []) \<Longrightarrow> (\<And>x. r = Inr x \<Longrightarrow> wp (f x) Q s)
   \<Longrightarrow> wp (bind (lift r) f) Q s"
  by (cases r) (simp_all add: wp_def bind_def lift_def split: prod.split)

lemma wpI_bind_emit:
  "wp (f ()) (\<lambda>r s' evs. Q r s' (ev # evs)) s \<Longrightarrow> wp (bind (emit ev) f) Q s"
  by (simp add: wp_def bind_def emit_def split: prod.splits)

lemma wpI_bind_logger:
  "wp (f ()) Q (s\<lparr>logs := logs s @ [l]\<rparr>) \<Longrightarrow> wp (bind (logger l) f) Q s"
  by (simp add: wp_def bind_def logger_def split: prod.splits)

lemma wpI_bind_return: "wp (f x) Q s \<Longrightarrow> wp (bind (return x) f) Q s"
  by (simp add: wp_def bind_def return_def split: prod.splits)

lemma wpI_bind_raise: "Q (Inl e) s [] \<Longrightarrow> wp (bind (raise e) f) Q s"
  by (simp add: wp_def bind_def raise_def)

lemma wpI_bind_bind: "wp (bind m (\<lambda>x. bind (g x) f)) Q s \<Longrightarrow> wp (bind (bind m g) f) Q s"
  by (simp add: bind_assoc)

lemma wpI_bind_if:
  "(c \<Longrightarrow> wp (bind a f) Q s) \<Longrightarrow> (\<not> c \<Longrightarrow> wp (bind b f) Q s)
   \<Longrightarrow> wp (bind (if c then a else b) f) Q s"
  by simp

lemma wpI_bind_case_option:
  "(x = None \<Longrightarrow> wp (bind a f) Q s) \<Longrightarrow> (\<And>y. x = Some y \<Longrightarrow> wp (bind (b y) f) Q s)
   \<Longrightarrow> wp (bind (case x of None \<Rightarrow> a | Some y \<Rightarrow> b y) f) Q s"
  by (simp split: option.split)

lemma wpI_bind_case_sum:
  "(\<And>e. x = Inl e \<Longrightarrow> wp (bind (a e) f) Q s) \<Longrightarrow> (\<And>y. x = Inr y \<Longrightarrow> wp (bind (b y) f) Q s)
   \<Longrightarrow> wp (bind (case x of Inl e \<Rightarrow> a e | Inr y \<Rightarrow> b y) f) Q s"
  by (simp split: sum.split)

lemma wpI_bind_case_json:
  "(j = JNull \<Longrightarrow> wp (bind a f) Q s) \<Longrightarrow> (\<And>b. j = JBool b \<Longrightarrow> wp (bind (f1 b) f) Q s)
   \<Longrightarrow> (\<And>n. j = JNum n \<Longrightarrow> wp (bind (f2 n) f) Q s)
   \<Longrightarrow> (\<And>x. j = JStr x \<Longrightarrow> wp (bind (f3 x) f) Q s)
   \<Longrightarrow> (\<And>xs. j = JArr xs \<Longrightarrow> wp (bind (f4 xs) f) Q s)
   \<Longrightarrow> (\<And>d. j = JObj d \<Longrightarrow> wp (bind (f5 d) f) Q s)
   \<Longrightarrow> wp (bind (case j of JNull \<Rightarrow> a | JBool b \<Rightarrow> f1 b | JNum n \<Rightarrow> f2 n | JStr x \<Rightarrow> f3 x
                   | JArr xs \<Rightarrow> f4 xs | JObj d \<Rightarrow> f5 d) f) Q s"
  by (simp split: json.split)

lemma wpI_bind_logged: "wp m (logged_then msg f Q) s \<Longrightarrow> wp (bind (logged msg m) f) Q s"
  by (simp add: wp_def bind_def logged_def logged_then_def split: prod.splits sum.splits)

lemma wpI_bind_get_transaction_count:
  "(\<And>e. transaction_count_error w a = Some e \<Longrightarrow> Q (Inl e) s []) \<Longrightarrow>
   (transaction_count_error w a = None \<Longrightarrow> wp (f (nonces s a)) Q s)
   \<Longrightarrow> wp (bind (get_transaction_count w a) f) Q s"
  by (cases "transaction_count_error w a")
     (auto simp: wp_def bind_def get_transaction_count_def split: prod.splits)

lemma wpI_bind_wait_receipt:
  "(\<And>e. wait_for_transaction_receipt w h = Inl e \<Longrightarrow> Q (Inl e) s []) \<Longrightarrow>
   (\<And>st. wait_for_transaction_receipt w h = Inr st \<Longrightarrow> wp (f st) Q (mined t st s))
   \<Longrightarrow> wp (bind (wait_receipt w t h) f) Q s"
  by (cases "wait_for_transaction_receipt w h")
     (auto simp: wp_def bind_def wait_receipt_def split: prod.splits)

lemma wpI_bind_call_allowance:
  "(\<And>e. allowance_error w tok ow sp = Some e \<Longrightarrow> Q (Inl e) s [CallAllowance tok ow sp]) \<Longrightarrow>
   (allowance_error w tok ow sp = None \<Longrightarrow>
      wp (f (allowances s (tok, ow, sp))) (\<lambda>r s' evs. Q r s' (CallAllowance tok ow sp # evs)) s)
   \<Longrightarrow> wp (bind (call_allowance w tok ow sp) f) Q s"
  by (cases "allowance_error w tok ow sp")
     (auto simp: wp_def bind_def call_allowance_def emit_def split: prod.splits)

subsection \<open>Where the property does not depend on the log\<close>

lemma wpI_bind_logger_any: "(\<And>s'. wp (f ()) Q s') \<Longrightarrow> wp (bind (logger l) f) Q s"
  by (simp add: wp_def bind_def logger_def split: prod.splits)

lemma logged_postI_Inl_any: "(\<And>s''. Q (Inl e) s'' evs) \<Longrightarrow> logged_post msg Q (Inl e) s' evs"
  by (simp add: logged_post_def)

lemma logged_thenI_Inl_any: "(\<And>s''. Q (Inl e) s'' evs) \<Longrightarrow> logged_then msg f Q (Inl e) s' evs"
  by (simp add: logged_then_def)

subsection \<open>Calls that only read\<close>

lemma wpI_bind_pure:
  assumes "\<And>Q s. (\<And>r. Q r s []) \<Longrightarrow> wp m Q s"
      and "\<And>e. outcome m s = Inl e \<Longrightarrow> Q (Inl e) s []"
      and "\<And>x. outcome m s = Inr x \<Longrightarrow> wp (f x) Q s"
    shows "wp (bind m f) Q s"
proof -
  have "wp m (\<lambda>r s' evs. s' = s \<and> evs = []) s"
    by (rule assms(1)) simp
  then have m: "m s = (outcome m s, s, [])"
    by (simp add: wp_def outcome_def split: prod.splits)
  show ?thesis
  proof (cases "outcome m s")
    case (Inl e)
    with m assms(2) show ?thesis by (simp add: wp_def bind_def)
  next
    case (Inr x)
    with m assms(3) show ?thesis by (simp add: wp_def bind_def split: prod.splits)
  qed
qed

lemma pure_amount_to_raw: "(\<And>r. Q r s []) \<Longrightarrow> wp (amount_to_raw w t a) Q s"
  unfolding amount_to_raw_def by (intro wpI_if wpI_lift wpI_bind_lift wpI_return)

lemma pure_approval_amount: "(\<And>r. Q r s []) \<Longrightarrow> wp (approval_amount w t a) Q s"
  unfolding approval_amount_def by (intro wpI_if wpI_lift wpI_bind_lift wpI_return)

lemma pure_swap_value: "(\<And>r. Q r s []) \<Longrightarrow> wp (swap_value w t a) Q s"
  unfolding swap_value_def by (intro wpI_if wpI_lift wpI_bind_lift wpI_return)

lemmas wpI_bind_amount_to_raw =
  wpI_bind_pure [where m = "amount_to_raw w t a" for w t a, OF pure_amount_to_raw]

lemmas wpI_bind_approval_amount =
  wpI_bind_pure [where m = "approval_amount w t a" for w t a, OF pure_approval_amount]

lemmas wpI_bind_swap_value =
  wpI_bind_pure [where m = "swap_value w t a" for w t a, OF pure_swap_value]

lemma outcome_amount_to_raw:
  "outcome (amount_to_raw w t a) s =
     (if lower t = lower NATIVE_TOKEN then to_wei_ether w a
      else case to_checksum_address w t of
             Inl e \<Rightarrow> Inl e
           | Inr c \<Rightarrow> (case erc20_decimals w c of
                        Inl e \<Rightarrow> Inl e
                      | Inr d \<Rightarrow> Inr (py_int (float_round w (a * float_round w (10 ^ d))))))"
  by (simp add: amount_to_raw_def outcome_def bind_def lift_def return_def split: sum.split)

lemma outcome_approval_amount:
  "outcome (approval_amount w t a) s =
     (if lower t = lower S_TOKEN then to_wei_ether w a
      else case to_checksum_address w t of
             Inl e \<Rightarrow> Inl e
           | Inr c \<Rightarrow> (case erc20_decimals w c of
                        Inl e \<Rightarrow> Inl e
                      | Inr d \<Rightarrow> Inr (py_int (float_round w (a * float_round w (10 ^ d))))))"
  by (simp add: approval_amount_def outcome_def bind_def lift_def return_def split: sum.split)

lemma outcome_swap_value:
  "outcome (swap_value w t a) s =
     (if lower t = lower NATIVE_TOKEN then to_wei_ether w a else Inr 0)"
  by (simp add: swap_value_def outcome_def lift_def return_def)

lemmas body_intros =
  wpI_return wpI_raise wpI_lift wpI_if wpI_case_option wpI_case_sum wpI_case_json wpI_logged
  wpI_bind_lift wpI_bind_emit wpI_bind_return wpI_bind_raise wpI_bind_bind wpI_bind_if
  wpI_bind_case_option wpI_bind_case_sum wpI_bind_case_json wpI_bind_logged
  wpI_bind_get_transaction_count wpI_bind_wait_receipt wpI_bind_call_allowance
  logged_postI_Inr logged_thenI_Inr

lemmas exact_intros = body_intros wpI_bind_logger logged_postI_Inl logged_thenI_Inl

lemma get_balance_run:
  "wp (get_balance w a t)
     (\<lambda>r s' evs. evs = [] \<and> (\<forall>b. r = Inr b \<longrightarrow> web3_connected w) \<and>
        s' = (case r of
                Inl e \<Rightarrow> s\<lparr>logs := logs s @ [LogError ''Failed to get balance'' e]\<rparr>
              | Inr b \<Rightarrow> s)) s"
  unfolding get_balance_def require_web3_def require_private_key_def
  by (intro exact_intros) simp_all

lemma get_balance_Inr:
  assumes "outcome (get_balance w a t) s = Inr b"
  shows "get_balance w a t s = (Inr b, s, [])" and "web3_connected w"
  using assms get_balance_run [of w a t s]
  by (auto simp: wp_def outcome_def split: prod.splits)

lemma wpI_bind_get_balance:
  assumes "\<And>e s'. outcome (get_balance w a t) s = Inl e \<Longrightarrow> Q (Inl e) s' []"
      and "\<And>b. outcome (get_balance w a t) s = Inr b \<Longrightarrow> wp (f b) Q s"
    shows "wp (bind (get_balance w a t) f) Q s"
proof (cases "outcome (get_balance w a t) s")
  case (Inl e)
  with get_balance_run [of w a t s] obtain s' where "get_balance w a t s = (Inl e, s', [])"
    by (auto simp: wp_def outcome_def split: prod.splits)
  with assms(1) [OF Inl, of s'] show ?thesis by (simp add: wp_def bind_def)
next
  case (Inr b)
  from get_balance_Inr(1) [OF Inr] assms(2) [OF Inr] show ?thesis
    by (simp add: wp_def bind_def split: prod.splits)
qed

text \<open>The rules for \<open>swap\<close> and the functions it calls, for properties of the outcome
  and the events.\<close>

lemmas swap_intros =
  wpI_bind_get_balance wpI_bind_amount_to_raw wpI_bind_approval_amount wpI_bind_swap_value
  body_intros wpI_bind_logger_any logged_postI_Inl_any logged_thenI_Inl_any

lemmas swap_defs =
  swap_def get_swap_route_def get_encoded_swap_data_def handle_token_approval_def
  send_swap_transaction_def estimate_or_default_def require_web3_def require_private_key_def
  Let_def

subsection \<open>The trade helper\<close>

lemma wpI_bind_call:
  "(\<And>e. r = Inl e \<Longrightarrow> Q (Inl (Exception e)) s []) \<Longrightarrow> (\<And>x. r = Inr x \<Longrightarrow> wp (f x) Q s)
   \<Longrightarrow> wp (bind (call r) f) Q s"
  by (cases r) (simp_all add: wp_def bind_def call_def lift_def split: prod.split)

lemma wpI_bind_quote_allowance:
  "(\<And>e. quote_allowance_error w tok ow sp = Some e \<Longrightarrow>
        Q (Inl (Exception e)) s [CallAllowance tok ow sp]) \<Longrightarrow>
   (quote_allowance_error w tok ow sp = None \<Longrightarrow>
      wp (f (allowances s (tok, ow, sp))) (\<lambda>r s' evs. Q r s' (CallAllowance tok ow sp # evs)) s)
   \<Longrightarrow> wp (bind (quote_allowance w tok ow sp) f) Q s"
  by (cases "quote_allowance_error w tok ow sp")
     (auto simp: wp_def bind_def quote_allowance_def emit_def split: prod.splits)

lemma wpI_bind_transaction_count:
  "(\<And>e. nonce_error w a = Some e \<Longrightarrow> Q (Inl (Exception e)) s []) \<Longrightarrow>
   (nonce_error w a = None \<Longrightarrow> wp (f (nonces s a)) Q s)
   \<Longrightarrow> wp (bind (transaction_count w a) f) Q s"
  by (cases "nonce_error w a")
     (auto simp: wp_def bind_def transaction_count_def split: prod.splits)

lemmas trade_intros =
  wpI_bind_call wpI_bind_quote_allowance wpI_bind_transaction_count wpI_return wpI_raise wpI_if
  wpI_bind_emit wpI_bind_logger_any wpI_bind_return wpI_bind_raise wpI_bind_bind wpI_bind_if

subsection \<open>Running the examples\<close>

lemmas eval_defs =
  swap_def get_balance_def get_swap_route_def get_encoded_swap_data_def
  handle_token_approval_def approval_amount_def amount_to_raw_def swap_value_def
  estimate_or_default_def send_swap_transaction_def require_web3_def require_private_key_def
  call_allowance_def get_transaction_count_def wait_receipt_def as_address_def mined_def
  get_explorer_link_def dict_get_def py_int_def lower_def lower_char_def NATIVE_TOKEN_def
  S_TOKEN_def bind_def return_def raise_def lift_def emit_def logger_def logged_def Let_def
  example_world_def no_route_world_def no_build_world_def reverting_world_def
  empty_chain_def approved_chain_def

lemma example_swap_run:
  "wp (swap example_world ''0xUSDC'' ''0xWETH'' 1 None)
     (\<lambda>r s' evs.
        r = Inr ''Swap transaction sent: https://explorer/tx/0xbb'' \<and>
        evs =
          [GetRoutes \<lparr>tokenIn = ''0xUSDC'', tokenOut = ''0xWETH'', amountIn = 1000000,
                      gasInclude = ''true''\<rparr>,
           PostRouteBuild \<lparr>routeSummary = JObj [], sender = ''0xA11ce'',
                           recipient = ''0xA11ce'', slippageTolerance = 50,
                           deadline = 1700001200, source = ''ZerePyBot''\<rparr>,
           CallAllowance ''0xUSDC'' ''0xA11ce'' ''0xRouter'',
           SendRawTransaction \<lparr>tx_from = ''0xA11ce'', tx_to = ''0xUSDC'',
                               tx_data = ApproveCall ''0xRouter'' 1000000, tx_value = 0,
                               tx_nonce = Some 0, tx_gasPrice = 1, tx_chainId = 146,
                               tx_gas = Some 60000\<rparr>,
           EstimateGas \<lparr>tx_from = ''0xA11ce'', tx_to = ''0xRouter'',
                        tx_data = EncodedData ''0xdeadbeef'', tx_value = 0,
                        tx_nonce = Some 1, tx_gasPrice = 1, tx_chainId = 146,
                        tx_gas = None\<rparr>,
           SendRawTransaction \<lparr>tx_from = ''0xA11ce'', tx_to = ''0xRouter'',
                               tx_data = EncodedData ''0xdeadbeef'', tx_value = 0,
                               tx_nonce = Some 1, tx_gasPrice = 1, tx_chainId = 146,
                               tx_gas = Some 500000\<rparr>]) empty_chain"
  by (simp add: wp_def eval_defs)

lemma S_token_swap_run:
  "wp (swap example_world S_TOKEN ''0xWETH'' 1 None)
     (\<lambda>r s' evs.
        evs =
          [GetRoutes \<lparr>tokenIn = S_TOKEN, tokenOut = ''0xWETH'', amountIn = 1000000,
                      gasInclude = ''true''\<rparr>,
           PostRouteBuild \<lparr>routeSummary = JObj [], sender = ''0xA11ce'',
                           recipient = ''0xA11ce'', slippageTolerance = 50,
                           deadline = 1700001200, source = ''ZerePyBot''\<rparr>,
           CallAllowance S_TOKEN ''0xA11ce'' ''0xRouter'',
           SendRawTransaction \<lparr>tx_from = ''0xA11ce'', tx_to = S_TOKEN,
                               tx_data = ApproveCall ''0xRouter'' 1000000000000000000,
                               tx_value = 0, tx_nonce = Some 0, tx_gasPrice = 1,
                               tx_chainId = 146, tx_gas = Some 60000\<rparr>,
           EstimateGas \<lparr>tx_from = ''0xA11ce'', tx_to = ''0xRouter'',
                        tx_data = EncodedData ''0xdeadbeef'', tx_value = 0,
                        tx_nonce = Some 1, tx_gasPrice = 1, tx_chainId = 146,
                        tx_gas = None\<rparr>,
           SendRawTransaction \<lparr>tx_from = ''0xA11ce'', tx_to = ''0xRouter'',
                               tx_data = EncodedData ''0xdeadbeef'', tx_value = 0,
                               tx_nonce = Some 1, tx_gasPrice = 1, tx_chainId = 146,
                               tx_gas = Some 500000\<rparr>]) empty_chain"
  by (simp add: wp_def eval_defs)

lemma reverting_swap_run:
  "wp (swap reverting_world NATIVE_TOKEN ''0xWETH'' 1 None)
     (\<lambda>r s' evs.
        r = Inl (SonicConnectionError ''Swap transaction failed'') \<and>
        evs =
          [GetRoutes \<lparr>tokenIn = NATIVE_TOKEN, tokenOut = ''0xWETH'',
                      amountIn = 1000000000000000000, gasInclude = ''true''\<rparr>,
           PostRouteBuild \<lparr>routeSummary = JObj [], sender = ''0xA11ce'',
                           recipient = ''0xA11ce'', slippageTolerance = 50,
                           deadline = 1700001200, source = ''ZerePyBot''\<rparr>,
           EstimateGas \<lparr>tx_from = ''0xA11ce'', tx_to = ''0xRouter'',
                        tx_data = EncodedData ''0xdeadbeef'',
                        tx_value = 1000000000000000000, tx_nonce = Some 0, tx_gasPrice = 1,
                        tx_chainId = 146, tx_gas = None\<rparr>,
           SendRawTransaction \<lparr>tx_from = ''0xA11ce'', tx_to = ''0xRouter'',
                               tx_data = EncodedData ''0xdeadbeef'',
                               tx_value = 1000000000000000000, tx_nonce = Some 0,
                               tx_gasPrice = 1, tx_chainId = 146,
                               tx_gas = Some 500000\<rparr>]) empty_chain"
  by (simp add: wp_def eval_defs)

lemma no_build_swap_run:
  "wp (swap no_build_world ''0xUSDC'' ''0xWETH'' 1 (Some 1))
     (\<lambda>r s' evs.
        r = Inl (SonicConnectionError ''API error: bad route'') \<and>
        evs =
          [GetRoutes \<lparr>tokenIn = ''0xUSDC'', tokenOut = ''0xWETH'', amountIn = 1000000,
                      gasInclude = ''true''\<rparr>,
           PostRouteBuild \<lparr>routeSummary = JObj [], sender = ''0xA11ce'',
                           recipient = ''0xA11ce'', slippageTolerance = 100,
                           deadline = 1700001200, source = ''ZerePyBot''\<rparr>]) empty_chain"
  by (simp add: wp_def eval_defs)

lemma no_route_swap_run:
  "wp (swap no_route_world ''0xUSDC'' ''0xWETH'' 1 None)
     (\<lambda>r s' evs.
        r = Inl (SonicConnectionError ''API error: route not found'') \<and>
        evs =
          [GetRoutes \<lparr>tokenIn = ''0xUSDC'', tokenOut = ''0xWETH'', amountIn = 1000000,
                      gasInclude = ''true''\<rparr>]) empty_chain"
  by (simp add: wp_def eval_defs)


lemma approved_run:
  "handle_token_approval example_world ''0xUSDC'' (JStr ''0xRouter'') 1000000 approved_chain =
     (Inr (), approved_chain, [CallAllowance ''0xUSDC'' ''0xA11ce'' ''0xRouter''])"
  by (simp add: eval_defs)

lemmas trade_eval_defs =
  trade_def call_def quote_allowance_def transaction_count_def lower_def lower_char_def
  py_int_def bind_def return_def raise_def lift_def emit_def logger_def Let_def
  example_trade_world_def empty_chain_def

lemma example_trade_run:
  "wp (trade example_trade_world ''0xkey'' ''0xWETH'' 1 (Some ''0xUSDC'') None)
     (\<lambda>r s' evs.
        r = Inl (Exception (NameError ''name 'tx_hash_1' is not defined'')) \<and>
        allowances s' (''0xUSDC'', ''0xA11ce'', ''0xRouter'') = 0 \<and>
        evs =
          [CallAllowance ''0xUSDC'' ''0xA11ce'' ''0xRouter'',
           SendTransaction \<lparr>tx_from = ''0xA11ce'', tx_to = ''0xRouter'',
                            tx_data = EncodedData ''0xc04b8d59'', tx_value = 0,
                            tx_nonce = Some 0, tx_gasPrice = 1000000000, tx_chainId = 1,
                            tx_gas = Some 300000\<rparr>]) empty_chain"
  by (simp add: wp_def trade_eval_defs)

lemma run_eq: "m s = (outcome m s, final m s, events m s)"
  by (simp add: outcome_def final_def events_def)

lemma wp_run: "wp m Q s \<Longrightarrow> m s = (r, s', evs) \<Longrightarrow> Q r s' evs"
  by (simp add: wp_def)

subsection \<open>What every run of \<open>swap\<close> satisfies\<close>

lemma swap_route: "wp (swap w tin tout amount sl)
    (\<lambda>r s' evs. \<forall>q. GetRoutes q \<in> set evs \<longrightarrow>
       outcome (amount_to_raw w tin amount) s = Inr (amountIn q) \<and> tokenIn q = tin \<and>
       tokenOut q = tout \<and>
       (\<forall>d. requests_get_routes w q = Inr (JObj d) \<longrightarrow> ne_zero (dict_get d ''code'') \<longrightarrow>
          r = Inl (SonicConnectionError (''API error: '' @ py_str_json w (dict_get d ''message'')))
          \<and> evs = [GetRoutes q])) s"
  apply (simp only: swap_defs)
  apply (intro swap_intros)
  apply simp_all
  done

lemma swap_build: "wp (swap w tin tout amount sl)
    (\<lambda>r s' evs. \<forall>p. PostRouteBuild p \<in> set evs \<longrightarrow>
       deadline p = py_int (float_round w (time_time w + 1200)) \<and>
       slippageTolerance p =
         py_int (float_round w ((case sl of None \<Rightarrow> 1 / 2 | Some x \<Rightarrow> x) * 100)) \<and>
       (\<forall>d. requests_post_build w p = Inr (JObj d) \<longrightarrow>
          (ne_zero (dict_get d ''code'') \<longrightarrow>
             r = Inl (SonicConnectionError
                        (''API error: '' @ py_str_json w (dict_get d ''message'')))) \<and>
          (\<not> ne_zero (dict_get d ''code'') \<longrightarrow>
             (dict_get d ''data'' = None \<or>
              (\<exists>inner. dict_get d ''data'' = Some (JObj inner) \<and>
                 (\<forall>encoded. dict_get inner ''data'' \<noteq> Some (JStr encoded)))) \<longrightarrow>
             r = Inl (SonicConnectionError ''Invalid encoded data returned from API'')))) s"
  apply (simp only: swap_defs)
  apply (intro swap_intros)
  apply simp_all
  done

lemma swap_approval: "wp (swap w tin tout amount sl)
    (\<lambda>r s' evs. lower tin \<noteq> lower NATIVE_TOKEN \<longrightarrow>
       (\<forall>tok ow sp. CallAllowance tok ow sp \<in> set evs \<longrightarrow>
          to_checksum_address w tin = Inr tok \<and> routed w evs sp \<and>
          (\<exists>amt. outcome (approval_amount w tin amount) s = Inr amt \<and>
             (amt \<le> allowances s (tok, ow, sp) \<longrightarrow>
                (\<forall>t sp' amt'. SendRawTransaction t \<in> set evs \<longrightarrow>
                   tx_data t \<noteq> ApproveCall sp' amt')))) \<and>
       (\<forall>t sp amt. SendRawTransaction t \<in> set evs \<longrightarrow> tx_data t = ApproveCall sp amt \<longrightarrow>
          outcome (approval_amount w tin amount) s = Inr amt \<and> routed w evs sp \<and>
          to_checksum_address w tin = Inr (tx_to t) \<and> tx_value t = 0 \<and>
          CallAllowance (tx_to t) (tx_from t) sp \<in> set evs \<and>
          allowances s (tx_to t, tx_from t, sp) < amt \<and>
          (\<forall>h st. send_raw_transaction w t = Inr h \<longrightarrow>
             wait_for_transaction_receipt w h = Inr st \<longrightarrow> st \<noteq> Some 1 \<longrightarrow>
             r = Inl (SonicConnectionError ''Approval transaction failed'') \<and>
             (\<forall>t' d. SendRawTransaction t' \<in> set evs \<longrightarrow> tx_data t' \<noteq> EncodedData d)) \<and>
          (\<forall>t' d. SendRawTransaction t' \<in> set evs \<longrightarrow> tx_data t' = EncodedData d \<longrightarrow>
             (\<exists>h. send_raw_transaction w t = Inr h \<and>
                  wait_for_transaction_receipt w h = Inr (Some 1)))) \<and>
       (\<forall>t d. SendRawTransaction t \<in> set evs \<longrightarrow> tx_data t = EncodedData d \<longrightarrow>
          (\<exists>tok sp. CallAllowance tok (tx_from t) sp \<in> set evs))) s"
  apply (simp only: swap_defs)
  apply (intro swap_intros)
  apply (simp_all add: routed_def as_address_def split: json.splits)
  done

lemma swap_native_value: "wp (swap w tin tout amount sl)
    (\<lambda>r s' evs.
       (lower tin = lower NATIVE_TOKEN \<longrightarrow>
          (\<forall>tok ow sp. CallAllowance tok ow sp \<notin> set evs) \<and>
          (\<forall>t. EstimateGas t \<in> set evs \<longrightarrow> to_wei_ether w amount = Inr (tx_value t)) \<and>
          (\<forall>t. SendRawTransaction t \<in> set evs \<longrightarrow>
             (\<exists>d. tx_data t = EncodedData d) \<and> to_wei_ether w amount = Inr (tx_value t))) \<and>
       (lower tin \<noteq> lower NATIVE_TOKEN \<longrightarrow>
          (\<forall>t. EstimateGas t \<in> set evs \<longrightarrow> tx_value t = 0) \<and>
          (\<forall>t d. SendRawTransaction t \<in> set evs \<longrightarrow> tx_data t = EncodedData d \<longrightarrow>
             tx_value t = 0)) \<and>
       (\<forall>t d h st. SendRawTransaction t \<in> set evs \<longrightarrow> tx_data t = EncodedData d \<longrightarrow>
          send_raw_transaction w t = Inr h \<longrightarrow> wait_for_transaction_receipt w h = Inr st \<longrightarrow>
          st \<noteq> Some 1 \<longrightarrow> r = Inl (SonicConnectionError ''Swap transaction failed'')) \<and>
       (\<forall>link. r = Inr link \<longrightarrow>
          (\<exists>t d h. SendRawTransaction t \<in> set evs \<and> tx_data t = EncodedData d \<and>
             send_raw_transaction w t = Inr h \<and>
             wait_for_transaction_receipt w h = Inr (Some 1)))) s"
  apply (simp only: swap_defs)
  apply (intro swap_intros)
  apply (simp_all add: outcome_swap_value conj_disj_distribR ex_disj_distrib split: if_splits)
  done


lemma approval_run: "wp (handle_token_approval w token spender amount)
    (\<lambda>r s' evs.
       length (filter is_submission evs) \<le> 1 \<and>
       (\<forall>tok ow sp. CallAllowance tok ow sp \<in> set evs \<longrightarrow> amount \<le> allowances s (tok, ow, sp) \<longrightarrow>
          evs = [CallAllowance tok ow sp] \<and> allowances s' = allowances s \<and> nonces s' = nonces s \<and>
          (allowance_error w tok ow sp = None \<longrightarrow> r = Inr () \<and> s' = s)) \<and>
       (r = Inr () \<longrightarrow>
          (\<exists>k a tc sp. web3_connected w \<and> SONIC_PRIVATE_KEY w = Some k \<and> k \<noteq> [] \<and>
             account_from_key w k = Inr a \<and> to_checksum_address w token = Inr tc \<and>
             as_address spender = Inr sp \<and> allowance_error w tc a sp = None \<and>
             amount \<le> allowances s' (tc, a, sp)))) s"
  apply (simp only: swap_defs)
  apply (intro exact_intros)
  apply (simp_all add: mined_def)
  done

lemma approval_noop:
  assumes "web3_connected w" "SONIC_PRIVATE_KEY w = Some k" "k \<noteq> []"
    "account_from_key w k = Inr a" "to_checksum_address w token = Inr tc"
    "as_address spender = Inr sp" "allowance_error w tc a sp = None"
    "amount \<le> allowances s (tc, a, sp)"
  shows "handle_token_approval w token spender amount s = (Inr (), s, [CallAllowance tc a sp])"
  unfolding handle_token_approval_def Let_def
  using assms
  by (simp add: logged_def bind_def require_web3_def require_private_key_def lift_def
      return_def raise_def call_allowance_def emit_def)

subsection \<open>What every run of \<open>trade\<close> satisfies\<close>

lemma trade_run: "wp (trade w private_key output_token input_amount input_token slippage)
    (\<lambda>r s' evs.
       (\<exists>b. r = Inl b) \<and>
       (\<forall>t h. SendTransaction t \<in> set evs \<longrightarrow> send_transaction w t = Inr h \<longrightarrow>
          r = Inl (Exception (NameError ''name 'tx_hash_1' is not defined'')))) s"
  apply (simp only: trade_def Let_def option.case)
  apply (intro trade_intros)
  apply simp_all
  done

section \<open>The properties\<close>

subsection \<open>C1: no swap submission while the allowance is too low\<close>

text \<open>
  C1 fails in \<open>EvmTradeHelper.trade\<close>. With a wallet whose allowance for the router is 0
  and an input of 1 token (1000000 raw units), \<open>trade\<close> reads the allowance, finds it too
  low, builds the approval and never sends it (line 177 is a comment); it then hands the
  swap transaction to the node (line 178). The run makes exactly two requests, the
  allowance read and the submission of the swap, and the allowance is still 0 when it
  ends: the main transaction is submitted while the router's allowance is below the
  required raw amount.
\<close>

theorem C1_trade_submits_below_allowance:
  "events (trade example_trade_world ''0xkey'' ''0xWETH'' 1 (Some ''0xUSDC'') None)
     empty_chain =
     [CallAllowance ''0xUSDC'' ''0xA11ce'' ''0xRouter'',
      SendTransaction \<lparr>tx_from = ''0xA11ce'', tx_to = ''0xRouter'',
                       tx_data = EncodedData ''0xc04b8d59'', tx_value = 0,
                       tx_nonce = Some 0, tx_gasPrice = 1000000000, tx_chainId = 1,
                       tx_gas = Some 300000\<rparr>]
   \<and> convert_to_raw example_trade_world
       \<lparr>token_address = ''0xUSDC'', token_symbol = ''TKN'', token_decimals = 6\<rparr> 1
     = Inr 1000000
   \<and> allowances empty_chain (''0xUSDC'', ''0xA11ce'', ''0xRouter'') = 0
   \<and> allowances
       (final (trade example_trade_world ''0xkey'' ''0xWETH'' 1 (Some ''0xUSDC'') None)
          empty_chain)
       (''0xUSDC'', ''0xA11ce'', ''0xRouter'') = 0"
proof -
  let ?m = "trade example_trade_world ''0xkey'' ''0xWETH'' 1 (Some ''0xUSDC'') None"
  from example_trade_run
  have run: "events ?m empty_chain =
               [CallAllowance ''0xUSDC'' ''0xA11ce'' ''0xRouter'',
                SendTransaction \<lparr>tx_from = ''0xA11ce'', tx_to = ''0xRouter'',
                                 tx_data = EncodedData ''0xc04b8d59'', tx_value = 0,
                                 tx_nonce = Some 0, tx_gasPrice = 1000000000, tx_chainId = 1,
                                 tx_gas = Some 300000\<rparr>]"
    and after: "allowances (final ?m empty_chain) (''0xUSDC'', ''0xA11ce'', ''0xRouter'') = 0"
    by (simp_all add: wp_outcome)
  have raw: "convert_to_raw example_trade_world
               \<lparr>token_address = ''0xUSDC'', token_symbol = ''TKN'', token_decimals = 6\<rparr> 1
             = Inr 1000000"
    by (simp add: example_trade_world_def py_int_def)
  have before: "allowances empty_chain (''0xUSDC'', ''0xA11ce'', ''0xRouter'') = 0"
    by (simp add: empty_chain_def)
  from run raw before after show ?thesis by blast
qed

subsection \<open>C2: \<open>trade\<close> never returns\<close>

text \<open>
  C2: no run of \<open>EvmTradeHelper.trade\<close> returns normally: whatever the input and the
  state, its outcome is an exception. A run in which the swap transaction was handed to
  the node and accepted by it ends with \<open>NameError\<close> on \<open>tx_hash_1\<close>, the name the
  broadcast message reads and nothing assigns.
\<close>

theorem C2_trade_never_returns:
  assumes "trade w private_key output_token input_amount input_token slippage_bps s
           = (r, s', evs)"
  shows "(\<exists>b. r = Inl b) \<and>
         (\<forall>t tx_hash_2. SendTransaction t \<in> set evs \<longrightarrow>
            send_transaction w t = Inr tx_hash_2 \<longrightarrow>
            r = Inl (Exception (NameError ''name 'tx_hash_1' is not defined'')))"
  using wp_run [OF trade_run assms] by blast

theorem C2_trade_never_returns_witness:
  "SendTransaction \<lparr>tx_from = ''0xA11ce'', tx_to = ''0xRouter'',
                    tx_data = EncodedData ''0xc04b8d59'', tx_value = 0,
                    tx_nonce = Some 0, tx_gasPrice = 1000000000, tx_chainId = 1,
                    tx_gas = Some 300000\<rparr>
     \<in> set (events (trade example_trade_world ''0xkey'' ''0xWETH'' 1 (Some ''0xUSDC'') None)
              empty_chain)
   \<and> send_transaction example_trade_world
       \<lparr>tx_from = ''0xA11ce'', tx_to = ''0xRouter'',
        tx_data = EncodedData ''0xc04b8d59'', tx_value = 0,
        tx_nonce = Some 0, tx_gasPrice = 1000000000, tx_chainId = 1,
        tx_gas = Some 300000\<rparr> = Inr ''0xbb''
   \<and> outcome (trade example_trade_world ''0xkey'' ''0xWETH'' 1 (Some ''0xUSDC'') None)
       empty_chain
     = Inl (Exception (NameError ''name 'tx_hash_1' is not defined''))"
proof -
  let ?m = "trade example_trade_world ''0xkey'' ''0xWETH'' 1 (Some ''0xUSDC'') None"
  let ?t = "\<lparr>tx_from = ''0xA11ce'', tx_to = ''0xRouter'',
             tx_data = EncodedData ''0xc04b8d59'', tx_value = 0,
             tx_nonce = Some 0, tx_gasPrice = 1000000000, tx_chainId = 1,
             tx_gas = Some 300000\<rparr>"
  have sent: "SendTransaction ?t \<in> set (events ?m empty_chain)"
    using example_trade_run by (simp add: wp_outcome)
  have accepted: "send_transaction example_trade_world ?t = Inr ''0xbb''"
    by (simp add: example_trade_world_def)
  from C2_trade_never_returns [OF run_eq [of ?m empty_chain]]
  have "\<forall>t h. SendTransaction t \<in> set (events ?m empty_chain) \<longrightarrow>
          send_transaction example_trade_world t = Inr h \<longrightarrow>
          outcome ?m empty_chain = Inl (Exception (NameError ''name 'tx_hash_1' is not defined''))"
    by blast
  with sent accepted show ?thesis by blast
qed

subsection \<open>C3: insufficient balance\<close>



subsection \<open>C4: the approval is idempotent\<close>

text \<open>
  C4, for \<open>_handle_token_approval\<close> (the spec's \<open>ensure_allowance\<close>), in four parts.
  \<^item> When the connection, the key, the account and the two addresses are there, the
    allowance read succeeds and the allowance is already at least the required amount,
    the call returns at once: its only request is the allowance read, and the state is
    the one it started in (no transaction built, signed or submitted, nothing logged).
  \<^item> Whatever else the world answers: a run that has read an allowance at least the
    required amount has made that read and nothing else, and it leaves allowances and
    nonces as they were.
  \<^item> After a call that has returned, a second call with the same arguments is such a
    no-op.
  \<^item> Two calls in succession, \<open>f(); f()\<close>, with the same arguments submit at most one
    transaction between them.
\<close>

theorem C4_ensure_allowance_idempotent:
  "(\<forall>key account token_contract spender_address.
      web3_connected w \<longrightarrow> SONIC_PRIVATE_KEY w = Some key \<longrightarrow> key \<noteq> [] \<longrightarrow>
      account_from_key w key = Inr account \<longrightarrow>
      to_checksum_address w token = Inr token_contract \<longrightarrow>
      as_address spender = Inr spender_address \<longrightarrow>
      allowance_error w token_contract account spender_address = None \<longrightarrow>
      amount \<le> allowances s (token_contract, account, spender_address) \<longrightarrow>
      handle_token_approval w token spender amount s =
        (Inr (), s, [CallAllowance token_contract account spender_address]))
   \<and> (\<forall>tok ow sp.
      CallAllowance tok ow sp \<in> set (events (handle_token_approval w token spender amount) s) \<longrightarrow>
      amount \<le> allowances s (tok, ow, sp) \<longrightarrow>
      events (handle_token_approval w token spender amount) s = [CallAllowance tok ow sp] \<and>
      allowances (final (handle_token_approval w token spender amount) s) = allowances s \<and>
      nonces (final (handle_token_approval w token spender amount) s) = nonces s \<and>
      (allowance_error w tok ow sp = None \<longrightarrow>
         outcome (handle_token_approval w token spender amount) s = Inr () \<and>
         final (handle_token_approval w token spender amount) s = s))
   \<and> (outcome (handle_token_approval w token spender amount) s = Inr () \<longrightarrow>
      (\<exists>tok ow sp.
         handle_token_approval w token spender amount
           (final (handle_token_approval w token spender amount) s) =
         (Inr (), final (handle_token_approval w token spender amount) s,
          [CallAllowance tok ow sp])))
   \<and> length (filter is_submission
        (events (bind (handle_token_approval w token spender amount)
                   (\<lambda>_. handle_token_approval w token spender amount)) s)) \<le> 1"
proof -
  let ?h = "handle_token_approval w token spender amount"
  note run = approval_run [of w token spender amount s, unfolded wp_outcome]
  have noop: "\<forall>key account token_contract spender_address.
      web3_connected w \<longrightarrow> SONIC_PRIVATE_KEY w = Some key \<longrightarrow> key \<noteq> [] \<longrightarrow>
      account_from_key w key = Inr account \<longrightarrow>
      to_checksum_address w token = Inr token_contract \<longrightarrow>
      as_address spender = Inr spender_address \<longrightarrow>
      allowance_error w token_contract account spender_address = None \<longrightarrow>
      amount \<le> allowances s (token_contract, account, spender_address) \<longrightarrow>
      ?h s = (Inr (), s, [CallAllowance token_contract account spender_address])"
    using approval_noop [of w _ _ token _ spender _ amount s] by blast
  have first: "length (filter is_submission (events ?h s)) \<le> 1"
    using run by blast
  have second: "\<exists>tok ow sp. ?h (final ?h s) = (Inr (), final ?h s, [CallAllowance tok ow sp])"
    if "outcome ?h s = Inr ()"
  proof -
    from that run obtain k a tc sp where facts:
      "web3_connected w" "SONIC_PRIVATE_KEY w = Some k" "k \<noteq> []"
      "account_from_key w k = Inr a" "to_checksum_address w token = Inr tc"
      "as_address spender = Inr sp" "allowance_error w tc a sp = None"
      "amount \<le> allowances (final ?h s) (tc, a, sp)"
      by auto
    have "?h (final ?h s) = (Inr (), final ?h s, [CallAllowance tc a sp])"
      by (rule approval_noop [OF facts])
    then show ?thesis by blast
  qed
  have twice: "length (filter is_submission (events (bind ?h (\<lambda>_. ?h)) s)) \<le> 1"
  proof (cases "outcome ?h s")
    case (Inl e)
    then have "events (bind ?h (\<lambda>_. ?h)) s = events ?h s"
      by (simp add: events_bind)
    with first show ?thesis by simp
  next
    case (Inr u)
    with second obtain tok ow sp where
      "?h (final ?h s) = (Inr (), final ?h s, [CallAllowance tok ow sp])"
      by auto
    with Inr have "events (bind ?h (\<lambda>_. ?h)) s = events ?h s @ [CallAllowance tok ow sp]"
      by (simp add: events_bind) (simp add: events_def)
    with first show ?thesis by simp
  qed
  from run have read: "\<forall>tok ow sp.
      CallAllowance tok ow sp \<in> set (events ?h s) \<longrightarrow> amount \<le> allowances s (tok, ow, sp) \<longrightarrow>
      events ?h s = [CallAllowance tok ow sp] \<and> allowances (final ?h s) = allowances s \<and>
      nonces (final ?h s) = nonces s \<and>
      (allowance_error w tok ow sp = None \<longrightarrow> outcome ?h s = Inr () \<and> final ?h s = s)"
    by blast
  from second have again: "outcome ?h s = Inr () \<longrightarrow>
      (\<exists>tok ow sp. ?h (final ?h s) = (Inr (), final ?h s, [CallAllowance tok ow sp]))"
    by blast
  show ?thesis
    by (intro conjI) (rule noop, rule read, rule again, rule twice)
qed

theorem C4_ensure_allowance_idempotent_witness:
  "web3_connected example_world
   \<and> SONIC_PRIVATE_KEY example_world = Some ''0xkey''
   \<and> account_from_key example_world ''0xkey'' = Inr ''0xA11ce''
   \<and> to_checksum_address example_world ''0xUSDC'' = Inr ''0xUSDC''
   \<and> as_address (JStr ''0xRouter'') = Inr ''0xRouter''
   \<and> allowance_error example_world ''0xUSDC'' ''0xA11ce'' ''0xRouter'' = None
   \<and> (1000000 :: int) \<le> allowances approved_chain (''0xUSDC'', ''0xA11ce'', ''0xRouter'')
   \<and> handle_token_approval example_world ''0xUSDC'' (JStr ''0xRouter'') 1000000 approved_chain
     = (Inr (), approved_chain, [CallAllowance ''0xUSDC'' ''0xA11ce'' ''0xRouter''])
   \<and> CallAllowance ''0xUSDC'' ''0xA11ce'' ''0xRouter''
       \<in> set (events (handle_token_approval example_world ''0xUSDC'' (JStr ''0xRouter'') 1000000)
                approved_chain)
   \<and> outcome (handle_token_approval example_world ''0xUSDC'' (JStr ''0xRouter'') 1000000)
       approved_chain = Inr ()
   \<and> final (handle_token_approval example_world ''0xUSDC'' (JStr ''0xRouter'') 1000000)
       approved_chain = approved_chain"
proof -
  let ?h = "handle_token_approval example_world ''0xUSDC'' (JStr ''0xRouter'') 1000000"
  have world: "web3_connected example_world"
    "SONIC_PRIVATE_KEY example_world = Some ''0xkey''" "''0xkey'' \<noteq> []"
    "account_from_key example_world ''0xkey'' = Inr ''0xA11ce''"
    "to_checksum_address example_world ''0xUSDC'' = Inr ''0xUSDC''"
    "as_address (JStr ''0xRouter'') = Inr ''0xRouter''"
    "allowance_error example_world ''0xUSDC'' ''0xA11ce'' ''0xRouter'' = None"
    by (simp_all add: example_world_def as_address_def)
  have enough: "(1000000 :: int) \<le> allowances approved_chain (''0xUSDC'', ''0xA11ce'', ''0xRouter'')"
    by (simp add: approved_chain_def)
  note C4 = C4_ensure_allowance_idempotent
    [of example_world "''0xUSDC''" "JStr ''0xRouter''" 1000000 approved_chain]
  from C4 have "\<forall>key account token_contract spender_address.
      web3_connected example_world \<longrightarrow> SONIC_PRIVATE_KEY example_world = Some key \<longrightarrow>
      key \<noteq> [] \<longrightarrow> account_from_key example_world key = Inr account \<longrightarrow>
      to_checksum_address example_world ''0xUSDC'' = Inr token_contract \<longrightarrow>
      as_address (JStr ''0xRouter'') = Inr spender_address \<longrightarrow>
      allowance_error example_world token_contract account spender_address = None \<longrightarrow>
      1000000 \<le> allowances approved_chain (token_contract, account, spender_address) \<longrightarrow>
      ?h approved_chain =
        (Inr (), approved_chain, [CallAllowance token_contract account spender_address])"
    by (rule conjunct1)
  from this [rule_format, OF world enough]
  have run: "?h approved_chain =
               (Inr (), approved_chain, [CallAllowance ''0xUSDC'' ''0xA11ce'' ''0xRouter''])" .
  then have read: "CallAllowance ''0xUSDC'' ''0xA11ce'' ''0xRouter'' \<in> set (events ?h approved_chain)"
    by (simp add: events_def)
  from C4 have "\<forall>tok ow sp.
      CallAllowance tok ow sp \<in> set (events ?h approved_chain) \<longrightarrow>
      1000000 \<le> allowances approved_chain (tok, ow, sp) \<longrightarrow>
      (allowance_error example_world tok ow sp = None \<longrightarrow>
         outcome ?h approved_chain = Inr () \<and> final ?h approved_chain = approved_chain)"
    by blast
  from this [rule_format, OF read enough world(7)] world enough run read
  show ?thesis by blast
qed

subsection \<open>C5: the approval \<open>swap\<close> asks for\<close>

text \<open>
  C5, as the spec states it, fails for one token: for the address the source calls the
  \<open>$S\<close> token, \<open>swap\<close> does not read the token's decimals; it takes
  \<open>web3.to_wei(amount, 'ether')\<close>. With a contract at that address that reports 6
  decimals, a swap of 1 token queries the route for 1000000 raw units (the amount in the
  token's decimals) and approves 1000000000000000000.
\<close>

theorem C5_counterexample:
  "erc20_decimals example_world S_TOKEN = Inr 6
   \<and> outcome (amount_to_raw example_world S_TOKEN 1) empty_chain = Inr 1000000
   \<and> SendRawTransaction \<lparr>tx_from = ''0xA11ce'', tx_to = S_TOKEN,
                          tx_data = ApproveCall ''0xRouter'' 1000000000000000000,
                          tx_value = 0, tx_nonce = Some 0, tx_gasPrice = 1,
                          tx_chainId = 146, tx_gas = Some 60000\<rparr>
       \<in> set (events (swap example_world S_TOKEN ''0xWETH'' 1 None) empty_chain)"
proof -
  have decimals: "erc20_decimals example_world S_TOKEN = Inr 6"
    by (simp add: example_world_def)
  have raw: "outcome (amount_to_raw example_world S_TOKEN 1) empty_chain = Inr 1000000"
    by (simp add: outcome_amount_to_raw)
       (simp add: example_world_def lower_def lower_char_def S_TOKEN_def NATIVE_TOKEN_def
          py_int_def)
  from S_token_swap_run raw decimals show ?thesis
    by (simp add: wp_outcome)
qed

text \<open>
  C5, amended. In a run of \<open>swap\<close> with an input token other than the native one:
  \<^item> every allowance read is on the input token's contract, for a spender that is the
    \<open>routerAddress\<close> of the route data the aggregator returned, and it is compared with
    the required amount \<open>approval_amount\<close>: when the allowance is at least that amount, no
    approval is sent;
  \<^item> every approval sent approves exactly that amount, to that spender, on the input
    token's contract, and only after a read that found the allowance below it; when its
    receipt has a status other than 1 the run ends with
    \<open>SonicConnectionError("Approval transaction failed")\<close> (the spec's \<open>ApprovalFailed\<close>)
    and no swap transaction is sent; a swap transaction is sent only after the receipt of
    the approval has arrived with status 1;
  \<^item> a swap transaction is sent only after an allowance read for its sender;
  \<^item> the required amount is \<open>int(amount * 10 ** decimals)\<close> with the decimals the token
    contract reports, except for the \<open>$S\<close> token address, where it is
    \<open>web3.to_wei(amount, 'ether')\<close>.
\<close>

theorem C5_approval_of_required_amount:
  assumes "swap w token_in token_out amount slippage s = (r, s', evs)"
      and "lower token_in \<noteq> lower NATIVE_TOKEN"
  shows
    "(\<forall>tok owner spender. CallAllowance tok owner spender \<in> set evs \<longrightarrow>
        to_checksum_address w token_in = Inr tok \<and> routed w evs spender \<and>
        (\<exists>required. outcome (approval_amount w token_in amount) s = Inr required \<and>
           (required \<le> allowances s (tok, owner, spender) \<longrightarrow>
              (\<forall>t sp a. SendRawTransaction t \<in> set evs \<longrightarrow> tx_data t \<noteq> ApproveCall sp a)))) \<and>
     (\<forall>t spender approved.
        SendRawTransaction t \<in> set evs \<longrightarrow> tx_data t = ApproveCall spender approved \<longrightarrow>
        outcome (approval_amount w token_in amount) s = Inr approved \<and>
        routed w evs spender \<and>
        to_checksum_address w token_in = Inr (tx_to t) \<and> tx_value t = 0 \<and>
        CallAllowance (tx_to t) (tx_from t) spender \<in> set evs \<and>
        allowances s (tx_to t, tx_from t, spender) < approved \<and>
        (\<forall>h status. send_raw_transaction w t = Inr h \<longrightarrow>
           wait_for_transaction_receipt w h = Inr status \<longrightarrow> status \<noteq> Some 1 \<longrightarrow>
           r = Inl (SonicConnectionError ''Approval transaction failed'') \<and>
           (\<forall>t' d. SendRawTransaction t' \<in> set evs \<longrightarrow> tx_data t' \<noteq> EncodedData d)) \<and>
        (\<forall>t' d. SendRawTransaction t' \<in> set evs \<longrightarrow> tx_data t' = EncodedData d \<longrightarrow>
           (\<exists>h. send_raw_transaction w t = Inr h \<and>
                wait_for_transaction_receipt w h = Inr (Some 1)))) \<and>
     (\<forall>t d. SendRawTransaction t \<in> set evs \<longrightarrow> tx_data t = EncodedData d \<longrightarrow>
        (\<exists>tok spender. CallAllowance tok (tx_from t) spender \<in> set evs)) \<and>
     outcome (approval_amount w token_in amount) s =
       (if lower token_in = lower S_TOKEN then to_wei_ether w amount
        else case to_checksum_address w token_in of
               Inl e \<Rightarrow> Inl e
             | Inr token_contract \<Rightarrow>
                 (case erc20_decimals w token_contract of
                    Inl e \<Rightarrow> Inl e
                  | Inr decimals \<Rightarrow>
                      Inr (py_int (float_round w (amount * float_round w (10 ^ decimals))))))"
  using wp_run [OF swap_approval assms(1)] assms(2) outcome_approval_amount [of w token_in amount s]
  by blast

theorem C5_approval_of_required_amount_witness:
  "lower ''0xUSDC'' \<noteq> lower NATIVE_TOKEN
   \<and> SendRawTransaction \<lparr>tx_from = ''0xA11ce'', tx_to = ''0xUSDC'',
                          tx_data = ApproveCall ''0xRouter'' 1000000, tx_value = 0,
                          tx_nonce = Some 0, tx_gasPrice = 1, tx_chainId = 146,
                          tx_gas = Some 60000\<rparr>
       \<in> set (events (swap example_world ''0xUSDC'' ''0xWETH'' 1 None) empty_chain)
   \<and> outcome (approval_amount example_world ''0xUSDC'' 1) empty_chain = Inr 1000000
   \<and> routed example_world (events (swap example_world ''0xUSDC'' ''0xWETH'' 1 None) empty_chain)
       ''0xRouter''
   \<and> CallAllowance ''0xUSDC'' ''0xA11ce'' ''0xRouter''
       \<in> set (events (swap example_world ''0xUSDC'' ''0xWETH'' 1 None) empty_chain)
   \<and> allowances empty_chain (''0xUSDC'', ''0xA11ce'', ''0xRouter'') < 1000000"
proof -
  let ?m = "swap example_world ''0xUSDC'' ''0xWETH'' 1 None"
  let ?t = "\<lparr>tx_from = ''0xA11ce'', tx_to = ''0xUSDC'',
             tx_data = ApproveCall ''0xRouter'' 1000000, tx_value = 0,
             tx_nonce = Some 0, tx_gasPrice = 1, tx_chainId = 146, tx_gas = Some 60000\<rparr>"
  have erc20: "lower ''0xUSDC'' \<noteq> lower NATIVE_TOKEN"
    by (simp add: lower_def lower_char_def NATIVE_TOKEN_def)
  have sent: "SendRawTransaction ?t \<in> set (events ?m empty_chain)"
    using example_swap_run by (simp add: wp_outcome)
  have approve: "tx_data ?t = ApproveCall ''0xRouter'' 1000000"
    and token: "tx_to ?t = ''0xUSDC''" and owner: "tx_from ?t = ''0xA11ce''"
    by simp_all
  from C5_approval_of_required_amount [OF run_eq [of ?m empty_chain] erc20]
  have "\<forall>t spender approved.
          SendRawTransaction t \<in> set (events ?m empty_chain) \<longrightarrow>
          tx_data t = ApproveCall spender approved \<longrightarrow>
          outcome (approval_amount example_world ''0xUSDC'' 1) empty_chain = Inr approved \<and>
          routed example_world (events ?m empty_chain) spender \<and>
          CallAllowance (tx_to t) (tx_from t) spender \<in> set (events ?m empty_chain) \<and>
          allowances empty_chain (tx_to t, tx_from t, spender) < approved"
    by blast
  from this [rule_format, OF sent approve] erc20 sent show ?thesis
    unfolding token owner by blast
qed

subsection \<open>C6: the native token needs no approval and is sent as value\<close>

text \<open>
  C6. In a run of \<open>swap\<close> whose input token is the native-token address, compared after
  \<open>lower()\<close>, there is no allowance read (the approval makes one before anything it
  sends, so no approval is made), every transaction sent is the swap, and the swap
  transaction, as built for the gas estimate and as sent, has the \<open>value\<close>
  \<open>web3.to_wei(amount, 'ether')\<close>. With any other input token the swap transaction, as
  built and as sent, has value zero. When the receipt of the swap transaction has a status other than 1 the run
  ends with \<open>SonicConnectionError("Swap transaction failed")\<close> (the spec's \<open>SwapFailed\<close>);
  a run that returns has sent a swap transaction whose receipt has status 1.
\<close>

theorem C6_native_value_and_swap_failure:
  assumes "swap w token_in token_out amount slippage s = (r, s', evs)"
  shows
    "(lower token_in = lower NATIVE_TOKEN \<longrightarrow>
        (\<forall>tok owner spender. CallAllowance tok owner spender \<notin> set evs) \<and>
        (\<forall>t. EstimateGas t \<in> set evs \<longrightarrow> to_wei_ether w amount = Inr (tx_value t)) \<and>
        (\<forall>t. SendRawTransaction t \<in> set evs \<longrightarrow>
           (\<exists>d. tx_data t = EncodedData d) \<and> to_wei_ether w amount = Inr (tx_value t))) \<and>
     (lower token_in \<noteq> lower NATIVE_TOKEN \<longrightarrow>
        (\<forall>t. EstimateGas t \<in> set evs \<longrightarrow> tx_value t = 0) \<and>
        (\<forall>t d. SendRawTransaction t \<in> set evs \<longrightarrow> tx_data t = EncodedData d \<longrightarrow>
           tx_value t = 0)) \<and>
     (\<forall>t d h status. SendRawTransaction t \<in> set evs \<longrightarrow> tx_data t = EncodedData d \<longrightarrow>
        send_raw_transaction w t = Inr h \<longrightarrow> wait_for_transaction_receipt w h = Inr status \<longrightarrow>
        status \<noteq> Some 1 \<longrightarrow> r = Inl (SonicConnectionError ''Swap transaction failed'')) \<and>
     (\<forall>link. r = Inr link \<longrightarrow>
        (\<exists>t d h. SendRawTransaction t \<in> set evs \<and> tx_data t = EncodedData d \<and>
           send_raw_transaction w t = Inr h \<and>
           wait_for_transaction_receipt w h = Inr (Some 1)))"
  using wp_run [OF swap_native_value assms] by blast

theorem C6_native_value_and_swap_failure_witness:
  "lower NATIVE_TOKEN = lower NATIVE_TOKEN
   \<and> SendRawTransaction \<lparr>tx_from = ''0xA11ce'', tx_to = ''0xRouter'',
                          tx_data = EncodedData ''0xdeadbeef'',
                          tx_value = 1000000000000000000, tx_nonce = Some 0,
                          tx_gasPrice = 1, tx_chainId = 146, tx_gas = Some 500000\<rparr>
       \<in> set (events (swap reverting_world NATIVE_TOKEN ''0xWETH'' 1 None) empty_chain)
   \<and> to_wei_ether reverting_world 1 = Inr 1000000000000000000
   \<and> send_raw_transaction reverting_world
       \<lparr>tx_from = ''0xA11ce'', tx_to = ''0xRouter'', tx_data = EncodedData ''0xdeadbeef'',
        tx_value = 1000000000000000000, tx_nonce = Some 0, tx_gasPrice = 1,
        tx_chainId = 146, tx_gas = Some 500000\<rparr> = Inr ''0xbb''
   \<and> wait_for_transaction_receipt reverting_world ''0xbb'' = Inr (Some 0)
   \<and> outcome (swap reverting_world NATIVE_TOKEN ''0xWETH'' 1 None) empty_chain
     = Inl (SonicConnectionError ''Swap transaction failed'')
   \<and> lower ''0xUSDC'' \<noteq> lower NATIVE_TOKEN
   \<and> SendRawTransaction \<lparr>tx_from = ''0xA11ce'', tx_to = ''0xRouter'',
                          tx_data = EncodedData ''0xdeadbeef'', tx_value = 0,
                          tx_nonce = Some 1, tx_gasPrice = 1, tx_chainId = 146,
                          tx_gas = Some 500000\<rparr>
       \<in> set (events (swap example_world ''0xUSDC'' ''0xWETH'' 1 None) empty_chain)"
proof -
  let ?m = "swap reverting_world NATIVE_TOKEN ''0xWETH'' 1 None"
  let ?t = "\<lparr>tx_from = ''0xA11ce'', tx_to = ''0xRouter'', tx_data = EncodedData ''0xdeadbeef'',
             tx_value = 1000000000000000000, tx_nonce = Some 0, tx_gasPrice = 1,
             tx_chainId = 146, tx_gas = Some 500000\<rparr>"
  let ?n = "swap example_world ''0xUSDC'' ''0xWETH'' 1 None"
  let ?u = "\<lparr>tx_from = ''0xA11ce'', tx_to = ''0xRouter'', tx_data = EncodedData ''0xdeadbeef'',
             tx_value = 0, tx_nonce = Some 1, tx_gasPrice = 1, tx_chainId = 146,
             tx_gas = Some 500000\<rparr>"
  have sent: "SendRawTransaction ?t \<in> set (events ?m empty_chain)"
    using reverting_swap_run by (simp add: wp_outcome)
  have data: "tx_data ?t = EncodedData ''0xdeadbeef''" and val: "tx_value ?t = 1000000000000000000"
    by simp_all
  have hash: "send_raw_transaction reverting_world ?t = Inr ''0xbb''"
    and status: "wait_for_transaction_receipt reverting_world ''0xbb'' = Inr (Some 0)"
    and reverted: "Some (0 :: int) \<noteq> Some 1"
    by (simp_all add: reverting_world_def example_world_def)
  note native = C6_native_value_and_swap_failure [OF run_eq [of ?m empty_chain]]
  from native have carried:
    "\<forall>t. SendRawTransaction t \<in> set (events ?m empty_chain) \<longrightarrow>
       to_wei_ether reverting_world 1 = Inr (tx_value t)"
    by blast
  from native have failure:
    "\<forall>t d h status. SendRawTransaction t \<in> set (events ?m empty_chain) \<longrightarrow>
       tx_data t = EncodedData d \<longrightarrow> send_raw_transaction reverting_world t = Inr h \<longrightarrow>
       wait_for_transaction_receipt reverting_world h = Inr status \<longrightarrow> status \<noteq> Some 1 \<longrightarrow>
       outcome ?m empty_chain = Inl (SonicConnectionError ''Swap transaction failed'')"
    by blast
  have erc20: "lower ''0xUSDC'' \<noteq> lower NATIVE_TOKEN"
    by (simp add: lower_def lower_char_def NATIVE_TOKEN_def)
  have sent': "SendRawTransaction ?u \<in> set (events ?n empty_chain)"
    using example_swap_run by (simp add: wp_outcome)
  from carried [rule_format, OF sent] failure [rule_format, OF sent data hash status reverted]
    sent hash status erc20 sent'
  show ?thesis unfolding val by blast
qed

subsection \<open>C7: the gas fallback\<close>



subsection \<open>C8: the encode request\<close>

text \<open>
  C8, as the spec states it, fails on the default: \<open>swap\<close>'s default is \<open>slippage=0.5\<close>,
  a percentage, and the request carries \<open>int(0.5 * 100) = 50\<close> basis points, not 100.
  The encode request of a swap called without a slippage argument:
\<close>

theorem C8_counterexample:
  "PostRouteBuild \<lparr>routeSummary = JObj [], sender = ''0xA11ce'', recipient = ''0xA11ce'',
                   slippageTolerance = 50, deadline = 1700001200, source = ''ZerePyBot''\<rparr>
     \<in> set (events (swap example_world ''0xUSDC'' ''0xWETH'' 1 None) empty_chain)"
  using example_swap_run by (simp add: wp_outcome)

text \<open>
  C8, amended. Every encode request a run of \<open>swap\<close> makes carries the deadline
  \<open>int(time.time() + 1200)\<close> and the slippage tolerance \<open>int(slippage * 100)\<close>, the
  percentage given to \<open>swap\<close> in basis points; without a slippage argument the percentage
  is 0.5 and the tolerance 50 basis points (50 being a float). When the service answers
  with a \<open>code\<close> other than 0 the run ends with \<open>SonicConnectionError("API error: ...")\<close>,
  and when the code is 0 and the answer has no \<open>data\<close>, or its \<open>data\<close> holds no string
  under \<open>data\<close> (the call data), with
  \<open>SonicConnectionError("Invalid encoded data returned from API")\<close>: the two forms the
  spec's \<open>EncodingFailed\<close> has in the source.
\<close>

theorem C8_encode_request:
  assumes "swap w token_in token_out amount slippage s = (r, s', evs)"
      and "PostRouteBuild p \<in> set evs"
  shows
    "deadline p = py_int (float_round w (time_time w + 1200)) \<and>
     slippageTolerance p =
       py_int (float_round w ((case slippage of None \<Rightarrow> 1 / 2 | Some percent \<Rightarrow> percent) * 100)) \<and>
     (slippage = None \<longrightarrow> float_round w 50 = 50 \<longrightarrow> slippageTolerance p = 50) \<and>
     (\<forall>d. requests_post_build w p = Inr (JObj d) \<longrightarrow>
        (ne_zero (dict_get d ''code'') \<longrightarrow>
           r = Inl (SonicConnectionError
                      (''API error: '' @ py_str_json w (dict_get d ''message'')))) \<and>
        (\<not> ne_zero (dict_get d ''code'') \<longrightarrow>
           (dict_get d ''data'' = None \<or>
            (\<exists>inner. dict_get d ''data'' = Some (JObj inner) \<and>
               (\<forall>encoded. dict_get inner ''data'' \<noteq> Some (JStr encoded)))) \<longrightarrow>
           r = Inl (SonicConnectionError ''Invalid encoded data returned from API'')))"
proof -
  note run = wp_run [OF swap_build assms(1), rule_format, OF assms(2)]
  have "slippage = None \<longrightarrow> float_round w 50 = 50 \<longrightarrow> slippageTolerance p = 50"
    using run by (simp add: py_int_def)
  with run show ?thesis by blast
qed

theorem C8_encode_request_witness:
  "PostRouteBuild \<lparr>routeSummary = JObj [], sender = ''0xA11ce'', recipient = ''0xA11ce'',
                   slippageTolerance = 100, deadline = 1700001200, source = ''ZerePyBot''\<rparr>
     \<in> set (events (swap no_build_world ''0xUSDC'' ''0xWETH'' 1 (Some 1)) empty_chain)
   \<and> requests_post_build no_build_world
       \<lparr>routeSummary = JObj [], sender = ''0xA11ce'', recipient = ''0xA11ce'',
        slippageTolerance = 100, deadline = 1700001200, source = ''ZerePyBot''\<rparr>
     = Inr (JObj [(''code'', JNum 4002), (''message'', JStr ''bad route'')])
   \<and> ne_zero (dict_get [(''code'', JNum 4002), (''message'', JStr ''bad route'')] ''code'')
   \<and> outcome (swap no_build_world ''0xUSDC'' ''0xWETH'' 1 (Some 1)) empty_chain
     = Inl (SonicConnectionError ''API error: bad route'')"
proof -
  let ?m = "swap no_build_world ''0xUSDC'' ''0xWETH'' 1 (Some 1)"
  let ?p = "\<lparr>routeSummary = JObj [], sender = ''0xA11ce'', recipient = ''0xA11ce'',
             slippageTolerance = 100, deadline = 1700001200, source = ''ZerePyBot''\<rparr>"
  let ?d = "[(''code'', JNum 4002), (''message'', JStr ''bad route'')]"
  have asked: "PostRouteBuild ?p \<in> set (events ?m empty_chain)"
    using no_build_swap_run by (simp add: wp_outcome)
  have answer: "requests_post_build no_build_world ?p = Inr (JObj ?d)"
    by (simp add: no_build_world_def)
  have code: "ne_zero (dict_get ?d ''code'')"
    and message: "''API error: '' @ py_str_json no_build_world (dict_get ?d ''message'')
                  = ''API error: bad route''"
    by (simp_all add: dict_get_def no_build_world_def example_world_def)
  from C8_encode_request [OF run_eq [of ?m empty_chain] asked]
  have "\<forall>d. requests_post_build no_build_world ?p = Inr (JObj d) \<longrightarrow>
          ne_zero (dict_get d ''code'') \<longrightarrow>
          outcome ?m empty_chain =
            Inl (SonicConnectionError
                   (''API error: '' @ py_str_json no_build_world (dict_get d ''message'')))"
    by blast
  from this [rule_format, OF answer code] asked answer code show ?thesis
    unfolding message by blast
qed

subsection \<open>C9: the route query\<close>

text \<open>
  C9. Every route query a run of \<open>swap\<close> makes (they are made by \<open>_get_swap_route\<close>) is
  for the two tokens given and for the raw amount \<open>amount_to_raw\<close>: for the native token
  \<open>web3.to_wei(amount, 'ether')\<close>, which is the amount in 18 decimals; for any other
  token \<open>int(amount * 10 ** decimals)\<close> with the decimals its contract reports. When the
  service answers with a \<open>code\<close> other than 0 the run ends with
  \<open>SonicConnectionError("API error: ...")\<close> (the spec's \<open>RouteNotFound\<close>) and the route
  query is the run's only request: no allowance read, no approval, no submission.
\<close>

theorem C9_route_query:
  assumes "swap w token_in token_out amount slippage s = (r, s', evs)"
      and "GetRoutes q \<in> set evs"
  shows
    "outcome (amount_to_raw w token_in amount) s = Inr (amountIn q) \<and>
     outcome (amount_to_raw w token_in amount) s =
       (if lower token_in = lower NATIVE_TOKEN then to_wei_ether w amount
        else case to_checksum_address w token_in of
               Inl e \<Rightarrow> Inl e
             | Inr token_contract \<Rightarrow>
                 (case erc20_decimals w token_contract of
                    Inl e \<Rightarrow> Inl e
                  | Inr decimals \<Rightarrow>
                      Inr (py_int (float_round w (amount * float_round w (10 ^ decimals)))))) \<and>
     tokenIn q = token_in \<and> tokenOut q = token_out \<and>
     (\<forall>d. requests_get_routes w q = Inr (JObj d) \<longrightarrow> ne_zero (dict_get d ''code'') \<longrightarrow>
        r = Inl (SonicConnectionError (''API error: '' @ py_str_json w (dict_get d ''message'')))
        \<and> evs = [GetRoutes q])"
  using wp_run [OF swap_route assms(1), rule_format, OF assms(2)]
    outcome_amount_to_raw [of w token_in amount s]
  by blast

theorem C9_route_query_witness:
  "GetRoutes \<lparr>tokenIn = ''0xUSDC'', tokenOut = ''0xWETH'', amountIn = 1000000,
              gasInclude = ''true''\<rparr>
     \<in> set (events (swap no_route_world ''0xUSDC'' ''0xWETH'' 1 None) empty_chain)
   \<and> requests_get_routes no_route_world
       \<lparr>tokenIn = ''0xUSDC'', tokenOut = ''0xWETH'', amountIn = 1000000,
        gasInclude = ''true''\<rparr>
     = Inr (JObj [(''code'', JNum 4), (''message'', JStr ''route not found'')])
   \<and> ne_zero (dict_get [(''code'', JNum 4), (''message'', JStr ''route not found'')] ''code'')
   \<and> outcome (swap no_route_world ''0xUSDC'' ''0xWETH'' 1 None) empty_chain
     = Inl (SonicConnectionError ''API error: route not found'')
   \<and> events (swap no_route_world ''0xUSDC'' ''0xWETH'' 1 None) empty_chain
     = [GetRoutes \<lparr>tokenIn = ''0xUSDC'', tokenOut = ''0xWETH'', amountIn = 1000000,
                   gasInclude = ''true''\<rparr>]"
proof -
  let ?m = "swap no_route_world ''0xUSDC'' ''0xWETH'' 1 None"
  let ?q = "\<lparr>tokenIn = ''0xUSDC'', tokenOut = ''0xWETH'', amountIn = 1000000,
             gasInclude = ''true''\<rparr>"
  let ?d = "[(''code'', JNum 4), (''message'', JStr ''route not found'')]"
  have asked: "GetRoutes ?q \<in> set (events ?m empty_chain)"
    using no_route_swap_run by (simp add: wp_outcome)
  have answer: "requests_get_routes no_route_world ?q = Inr (JObj ?d)"
    by (simp add: no_route_world_def)
  have code: "ne_zero (dict_get ?d ''code'')"
    and message: "''API error: '' @ py_str_json no_route_world (dict_get ?d ''message'')
                  = ''API error: route not found''"
    by (simp_all add: dict_get_def no_route_world_def example_world_def)
  from C9_route_query [OF run_eq [of ?m empty_chain] asked]
  have "\<forall>d. requests_get_routes no_route_world ?q = Inr (JObj d) \<longrightarrow>
          ne_zero (dict_get d ''code'') \<longrightarrow>
          outcome ?m empty_chain =
            Inl (SonicConnectionError
                   (''API error: '' @ py_str_json no_route_world (dict_get d ''message'')))
          \<and> events ?m empty_chain = [GetRoutes ?q]"
    by blast
  from this [rule_format, OF answer code] asked answer code show ?thesis
    unfolding message by blast
qed

subsection \<open>C10: the dispatch layer\<close>

lemma dispatch_outcome:
  "(\<forall>e. perform_action agent ''evm'' name params = Inl (Exception e) \<longrightarrow>
      dispatch start name params done failed failure agent =
        (Inr failure, [LogInfo start, LogError failed e])) \<and>
   (\<forall>n. perform_action agent ''evm'' name params = Inl (SystemExit n) \<longrightarrow>
      dispatch start name params done failed failure agent =
        (Inl (SystemExit n), [LogInfo start])) \<and>
   (perform_action agent ''evm'' name params = Inl KeyboardInterrupt \<longrightarrow>
      dispatch start name params done failed failure agent =
        (Inl KeyboardInterrupt, [LogInfo start])) \<and>
   (\<forall>result. perform_action agent ''evm'' name params = Inr result \<longrightarrow>
      fst (dispatch start name params done failed failure agent) = Inr result) \<and>
   (\<forall>e. fst (dispatch start name params done failed failure agent) \<noteq> Inl (Exception e))"
  by (simp add: dispatch_def split: sum.split base_exn.split)

lemma dispatched:
  assumes "\<And>agent. act agent kwargs = dispatch start name params done failed failure agent"
  shows "\<exists>params start failed. \<forall>agent.
           (\<forall>e. perform_action agent ''evm'' name params = Inl (Exception e) \<longrightarrow>
              act agent kwargs = (Inr failure, [LogInfo start, LogError failed e])) \<and>
           (\<forall>n. perform_action agent ''evm'' name params = Inl (SystemExit n) \<longrightarrow>
              act agent kwargs = (Inl (SystemExit n), [LogInfo start])) \<and>
           (perform_action agent ''evm'' name params = Inl KeyboardInterrupt \<longrightarrow>
              act agent kwargs = (Inl KeyboardInterrupt, [LogInfo start])) \<and>
           (\<forall>result. perform_action agent ''evm'' name params = Inr result \<longrightarrow>
              fst (act agent kwargs) = Inr result) \<and>
           (\<forall>e. fst (act agent kwargs) \<noteq> Inl (Exception e))"
  unfolding assms using dispatch_outcome by blast

text \<open>
  C10, as the spec states it, fails: an action lets \<open>SystemExit\<close> through. With an
  underlying operation that raises \<open>SystemExit(1)\<close>, \<open>evm_swap\<close> raises it to its caller
  instead of returning \<open>False\<close>.
\<close>

theorem C10_counterexample:
  "fst (evm_swap (raising_agent (SystemExit 1)) []) = Inl (SystemExit 1)"
  by (simp add: evm_swap_def dispatch_def raising_agent_def)

text \<open>
  C10, amended. Each action of the dispatch layer performs one operation,
  \<open>perform_action("evm", name, params)\<close>, with parameters that depend on the keyword
  arguments only. For every agent and all keyword arguments:
  \<^item> when the operation raises an exception \<open>e\<close> of class \<open>Exception\<close>, the action logs
    its start and the failure with \<open>e\<close> and returns its failure value (\<open>False\<close> for the
    changing actions, \<open>None\<close> for the reading ones);
  \<^item> when the operation raises \<open>SystemExit\<close> or \<open>KeyboardInterrupt\<close>, the action
    raises it to its caller, with nothing logged after its start;
  \<^item> when the operation returns a value, the action returns it;
  \<^item> no action ever raises an exception of class \<open>Exception\<close>.
\<close>

theorem C10_actions_catch_Exception:
  assumes "(act, name, failure) \<in> set evm_actions"
  shows "\<exists>params start failed. \<forall>agent.
           (\<forall>e. perform_action agent ''evm'' name params = Inl (Exception e) \<longrightarrow>
              act agent kwargs = (Inr failure, [LogInfo start, LogError failed e])) \<and>
           (\<forall>n. perform_action agent ''evm'' name params = Inl (SystemExit n) \<longrightarrow>
              act agent kwargs = (Inl (SystemExit n), [LogInfo start])) \<and>
           (perform_action agent ''evm'' name params = Inl KeyboardInterrupt \<longrightarrow>
              act agent kwargs = (Inl KeyboardInterrupt, [LogInfo start])) \<and>
           (\<forall>result. perform_action agent ''evm'' name params = Inr result \<longrightarrow>
              fst (act agent kwargs) = Inr result) \<and>
           (\<forall>e. fst (act agent kwargs) \<noteq> Inl (Exception e))"
proof -
  from assms consider
      "act = evm_transfer" "name = ''transfer''" "failure = PBool False"
    | "act = evm_swap" "name = ''trade''" "failure = PBool False"
    | "act = evm_balance" "name = ''get-balance''" "failure = PNone"
    | "act = evm_stake" "name = ''stake''" "failure = PBool False"
    | "act = evm_lend" "name = ''lend-assets''" "failure = PBool False"
    | "act = request_faucet_funds" "name = ''request-faucet''" "failure = PBool False"
    | "act = evm_deploy_token" "name = ''deploy-token''" "failure = PBool False"
    | "act = evm_get_price" "name = ''fetch-price''" "failure = PNone"
    | "act = evm_get_tps" "name = ''get-tps''" "failure = PNone"
    | "act = get_token_data_by_ticker" "name = ''get-token-by-ticker''" "failure = PNone"
    | "act = get_token_data_by_address" "name = ''get-token-by-address''" "failure = PNone"
    | "act = launch_pump_fun_token" "name = ''launch-pump-token''" "failure = PBool False"
    | "act = list_contract_functions" "name = ''list-contract-functions''" "failure = PNone"
    | "act = call_contract_function" "name = ''call-contract-function''" "failure = PNone"
    | "act = wrap_eth" "name = ''wrap-eth''" "failure = PBool False"
    unfolding evm_actions_def
    by (simp only: list.set insert_iff empty_iff prod.inject) (elim disjE conjE FalseE; assumption)
  then show ?thesis
  proof cases
    case 1 show ?thesis unfolding 1 by (rule dispatched) (rule evm_transfer_def)
  next
    case 2 show ?thesis unfolding 2 by (rule dispatched) (rule evm_swap_def)
  next
    case 3 show ?thesis unfolding 3 by (rule dispatched) (rule evm_balance_def)
  next
    case 4 show ?thesis unfolding 4 by (rule dispatched) (rule evm_stake_def)
  next
    case 5 show ?thesis unfolding 5 by (rule dispatched) (rule evm_lend_def)
  next
    case 6 show ?thesis unfolding 6 by (rule dispatched) (rule request_faucet_funds_def)
  next
    case 7 show ?thesis unfolding 7 by (rule dispatched) (rule evm_deploy_token_def)
  next
    case 8 show ?thesis unfolding 8 by (rule dispatched) (rule evm_get_price_def)
  next
    case 9 show ?thesis unfolding 9 by (rule dispatched) (rule evm_get_tps_def)
  next
    case 10 show ?thesis unfolding 10 by (rule dispatched) (rule get_token_data_by_ticker_def)
  next
    case 11 show ?thesis unfolding 11 by (rule dispatched) (rule get_token_data_by_address_def)
  next
    case 12 show ?thesis unfolding 12 by (rule dispatched) (rule launch_pump_fun_token_def)
  next
    case 13 show ?thesis unfolding 13 by (rule dispatched) (rule list_contract_functions_def)
  next
    case 14 show ?thesis unfolding 14 by (rule dispatched) (rule call_contract_function_def)
  next
    case 15 show ?thesis unfolding 15 by (rule dispatched) (rule wrap_eth_def)
  qed
qed

theorem C10_actions_catch_Exception_witness:
  "(evm_balance, ''get-balance'', PNone) \<in> set evm_actions
   \<and> perform_action (failing_on ''get-balance'' (Exception (ValueError ''no wallet'')))
       ''evm'' ''get-balance'' [PNone]
     = Inl (Exception (ValueError ''no wallet''))
   \<and> perform_action (failing_on ''get-balance'' (Exception (ValueError ''no wallet'')))
       ''evm'' ''get-tps'' []
     = Inr PNone
   \<and> fst (evm_balance (failing_on ''get-balance'' (Exception (ValueError ''no wallet''))) [])
     = Inr PNone
   \<and> perform_action (failing_on ''get-balance'' KeyboardInterrupt) ''evm'' ''get-balance'' [PNone]
     = Inl KeyboardInterrupt
   \<and> fst (evm_balance (failing_on ''get-balance'' KeyboardInterrupt) []) = Inl KeyboardInterrupt
   \<and> fst (evm_balance (failing_on ''get-balance'' (SystemExit 1)) []) = Inl (SystemExit 1)"
proof -
  have member: "(evm_balance, ''get-balance'', PNone) \<in> set evm_actions"
    by (simp add: evm_actions_def)
  have raises:
    "perform_action (failing_on ''get-balance'' b) ''evm'' ''get-balance'' params = Inl b"
    for b params
    by (simp add: failing_on_def)
  have returns:
    "perform_action (failing_on ''get-balance'' (Exception (ValueError ''no wallet'')))
       ''evm'' ''get-tps'' [] = Inr PNone"
    by (simp add: failing_on_def)
  from C10_actions_catch_Exception [OF member, of "[]"]
  obtain params start failed where action: "\<forall>agent.
      (\<forall>e. perform_action agent ''evm'' ''get-balance'' params = Inl (Exception e) \<longrightarrow>
         evm_balance agent [] = (Inr PNone, [LogInfo start, LogError failed e])) \<and>
      (\<forall>n. perform_action agent ''evm'' ''get-balance'' params = Inl (SystemExit n) \<longrightarrow>
         evm_balance agent [] = (Inl (SystemExit n), [LogInfo start])) \<and>
      (perform_action agent ''evm'' ''get-balance'' params = Inl KeyboardInterrupt \<longrightarrow>
         evm_balance agent [] = (Inl KeyboardInterrupt, [LogInfo start]))"
    by blast
  from action [rule_format, of "failing_on ''get-balance'' (Exception (ValueError ''no wallet''))"]
    raises
  have caught: "fst (evm_balance (failing_on ''get-balance'' (Exception (ValueError ''no wallet''))) [])
                = Inr PNone"
    by simp
  from action [rule_format, of "failing_on ''get-balance'' KeyboardInterrupt"] raises
  have interrupted: "fst (evm_balance (failing_on ''get-balance'' KeyboardInterrupt) [])
                     = Inl KeyboardInterrupt"
    by simp
  from action [rule_format, of "failing_on ''get-balance'' (SystemExit 1)"] raises
  have exited: "fst (evm_balance (failing_on ''get-balance'' (SystemExit 1)) []) = Inl (SystemExit 1)"
    by simp
  from member raises returns caught interrupted exited show ?thesis by blast
qed

end
